theory Spec2Isabelle
  imports Main "HOL-Library.Sublist"
begin

section \<open>Types, descriptors and contexts\<close>

text \<open>
  The header is a piece of template metaprogramming: its inputs are C++ types and
  lists of types, and most of its work is done while the program is compiled. A C++
  type is a value of \<open>ty\<close>; \<open>utils::tl<Ts...>\<close> is a HOL list of them. A class template
  instance keeps its template name and its arguments (\<open>IValueProduct<int>\<close>,
  \<open>IPrototypeProduct<0>\<close>).
\<close>

datatype ty =
    t_bool
  | t_int
  | t_float
  | t_double
  | t_cstring
  | t_class string
  | t_inst string "ty list"
  | t_inst_int string int
  | t_ptr ty
  | t_unique_ptr ty
  | t_shared_ptr ty

text \<open>
  A product interface as the traits see it: the type itself and the member typedefs
  the header and the example program ask about (\<open>T::ret_type\<close>, \<open>T::ctor_args\<close>,
  \<open>T::prototype_t\<close>); \<open>None\<close> is a member that is not declared.
\<close>

record descriptor =
  self :: ty
  ret_type :: "ty option"
  ctor_args :: "ty list option"
  prototype_t :: "ty option"

text \<open>\<open>utils::tl<Abstract, Ret, utils::tl<Args...>>\<close>, the \<open>context\<close> of a creator.\<close>

record "context" =
  abstract :: descriptor
  ret :: ty
  args :: "ty list"

text \<open>\<open>utils::get_ctor_args\<close>: the primary template and its specialization.\<close>

definition get_ctor_args :: "descriptor \<Rightarrow> ty list" where
  "get_ctor_args T = (case ctor_args T of None \<Rightarrow> [] | Some as \<Rightarrow> as)"

text \<open>
  \<open>utils::get_ret_type<T, Default>\<close>; the second argument is \<open>Default::type\<close>.
\<close>

definition get_ret_type :: "descriptor \<Rightarrow> ty \<Rightarrow> ty" where
  "get_ret_type T Default = (case ret_type T of None \<Rightarrow> Default | Some r \<Rightarrow> r)"

text \<open>
  \<open>abstract_creator_interface<Abstract, Ret, utils::tl<Args...>>\<close> declares the pure
  virtual \<open>Ret create(type_identity<Abstract>, Args...)\<close>; the class is determined by
  its \<open>context\<close>.
\<close>

definition abstract_creator_interface :: "descriptor \<Rightarrow> ty \<Rightarrow> ty list \<Rightarrow> context" where
  "abstract_creator_interface Abstract Ret Args = \<lparr>abstract = Abstract, ret = Ret, args = Args\<rparr>"

definition default_abstract_creator :: "descriptor \<Rightarrow> context" where
  "default_abstract_creator Abstract =
     abstract_creator_interface Abstract
       (get_ret_type Abstract (t_unique_ptr (self Abstract)))
       (get_ctor_args Abstract)"

text \<open>
  \<open>utils::make_factory_interface\<close>: a class derived from \<open>T\<close> (so every member of \<open>T\<close>
  that it does not hide is still found) with \<open>ret_type\<close> and \<open>ctor_args\<close> attached.
  The partial specialization \<open>make_factory_interface<T, utils::tl<Args...>>\<close> is chosen
  when the second argument is a type list and the third is left at its default.
\<close>

definition tl_type :: "ty list \<Rightarrow> ty" where
  "tl_type Ts = t_inst ''utils::tl'' Ts"

fun make_factory_interface :: "descriptor \<Rightarrow> ty \<Rightarrow> ty list \<Rightarrow> descriptor" where
  "make_factory_interface T (t_inst n As) Args =
     (if n = ''utils::tl'' \<and> Args = []
      then T\<lparr>self := t_inst ''utils::make_factory_interface'' [self T, tl_type As, tl_type []],
             ctor_args := Some As\<rparr>
      else T\<lparr>self := t_inst ''utils::make_factory_interface'' [self T, t_inst n As, tl_type Args],
             ret_type := Some (t_inst n As), ctor_args := Some Args\<rparr>)"
| "make_factory_interface T Ret Args =
     T\<lparr>self := t_inst ''utils::make_factory_interface'' [self T, Ret, tl_type Args],
       ret_type := Some Ret, ctor_args := Some Args\<rparr>"

section \<open>What the compiler is asked\<close>

text \<open>
  The header asks the compiler two questions it does not answer itself:
  \<open>std::is_constructible<T, Args...>\<close>, and whether a call of a member function with
  arguments of given types is well formed (\<open>utils::is_invocable_memfn\<close>, through the
  \<open>decltype\<close> of the call), which for a non-overloaded member function is the implicit
  convertibility of each argument to its parameter. They depend on the classes of the
  program that uses the header, so they are parameters of the model, together with the
  value conversion that such a call performs.
\<close>

datatype val =
    v_bool bool
  | v_int int
  | v_handle ty "nat option"

text \<open>
  \<open>v_handle T p\<close> is a value of the pointer-like type \<open>T\<close> (raw pointer,
  \<open>std::unique_ptr\<close>, \<open>std::shared_ptr\<close>) that holds the address \<open>p\<close>, or is empty.
\<close>

fun type_of :: "val \<Rightarrow> ty" where
  "type_of (v_bool b) = t_bool"
| "type_of (v_int i) = t_int"
| "type_of (v_handle T p) = T"

record cxx =
  is_constructible :: "ty \<Rightarrow> ty list \<Rightarrow> bool"
  is_convertible :: "ty \<Rightarrow> ty \<Rightarrow> bool"
  convert :: "ty \<Rightarrow> val \<Rightarrow> val"

text \<open>
  Passing or returning a value where type \<open>T\<close> is expected: a value that already has
  type \<open>T\<close> arrives unchanged, any other is converted.
\<close>

definition as_type :: "cxx \<Rightarrow> ty \<Rightarrow> val \<Rightarrow> val" where
  "as_type L T v = (if type_of v = T then v else convert L T v)"

definition pass_args :: "cxx \<Rightarrow> ty list \<Rightarrow> val list \<Rightarrow> val list" where
  "pass_args L Params vs = map2 (as_type L) Params vs"

text \<open>
  \<open>utils::is_invocable_memfn<decltype(&Creator<Abstract>::create),
  type_identity<Abstract>, Args...>\<close>, for the \<open>create\<close> of the interface \<open>Context\<close>. Its
  first parameter is \<open>type_identity<A>\<close> for the product \<open>A\<close> the interface was made for,
  and no \<open>type_identity\<close> converts to another: the tag \<open>type_identity<Abstract>\<close> of the
  call must name that same product. The other arguments must be as many as the
  parameters and convertible to them one by one. The return type of the first
  overload of \<open>abstract_factory::create\<close> is the \<open>decltype\<close> of the same call, so it is
  well formed under the same condition.
\<close>

definition is_invocable_memfn :: "cxx \<Rightarrow> context \<Rightarrow> descriptor \<Rightarrow> ty list \<Rightarrow> bool" where
  "is_invocable_memfn L Context Tag Ts =
     (abstract Context = Tag \<and> list_all2 (is_convertible L) Ts (args Context))"

text \<open>What a failed build reports, and what a call can end in.\<close>

datatype diagnostic =
    static_assert string
  | incomplete_type
  | duplicate_base_class
  | no_matching_function

datatype 'a outcome =
    build_failure "diagnostic list"
  | undefined_behaviour
  | returned 'a

section \<open>The chain of creators\<close>

text \<open>
  \<open>abstract_factory<utils::tl<AbstractList...>, Creator>\<close>: the list of product
  interfaces and the alias template that turns each into its creator interface.
\<close>

record abstract_factory =
  AbstractList :: "descriptor list"
  Creator :: "descriptor \<Rightarrow> context"

definition context_list :: "abstract_factory \<Rightarrow> context list" where
  "context_list AF = map (Creator AF) (AbstractList AF)"

text \<open>
  The concrete creator templates of the repository: \<open>default_concrete_creator\<close> of the
  header and \<open>CustomConcreteCreator\<close> of the example program.
\<close>

datatype creator_template = default_concrete_creator | CustomConcreteCreator

text \<open>
  The type that \<open>generate_creators\<close> names: \<open>Creator<Context, C0, Base>\<close>, where \<open>Base\<close>
  is the rest of the chain or, at the end, the root.
\<close>

datatype chain =
    Root abstract_factory
  | Derived creator_template "context" ty chain

text \<open>
  \<open>utils::generate_creators\<close>. Only two partial specializations are defined. The one
  for a single context and a single concrete class is the more specialized and wins
  there; the general one asserts that the two tails have the same length and goes on
  with them whether or not the assertion held; any other pair of lists selects the
  primary template, which is declared and never defined, so that naming its \<open>type\<close>
  is an error without a message of the header.
\<close>

fun generate_creators ::
  "creator_template \<Rightarrow> abstract_factory \<Rightarrow> context list \<Rightarrow> ty list \<Rightarrow> diagnostic list + chain"
where
  "generate_creators Cr R [Context] [C0] = Inr (Derived Cr Context C0 (Root R))"
| "generate_creators Cr R (Context # Contexts) (C0 # Cs) =
     (let asserted =
            (if length Contexts = length Cs then []
             else [static_assert ''Abstract and concrete lists are of different length''])
      in case generate_creators Cr R Contexts Cs of
           Inl ds \<Rightarrow> Inl (asserted @ ds)
         | Inr Base \<Rightarrow>
             (if asserted = [] then Inr (Derived Cr Context C0 Base) else Inl asserted))"
| "generate_creators Cr R Contexts Cs = Inl [incomplete_type]"

section \<open>Concrete creators\<close>

text \<open>
  The static assertions of \<open>default_concrete_creator\<close>, in the order of the class body.
\<close>

definition default_concrete_creator_asserts :: "cxx \<Rightarrow> context \<Rightarrow> ty \<Rightarrow> diagnostic list" where
  "default_concrete_creator_asserts L Context Concrete =
     (if is_constructible L Concrete (args Context) then []
      else [static_assert ''Product is not constructible from a given set of arguments''])
     @ (if is_constructible L (ret Context) [t_ptr Concrete] then []
        else [static_assert ''ret_type is not constructible from Concrete*''])"

text \<open>The product interfaces of the example program that its creator template names.\<close>

definition IValueProduct :: "ty \<Rightarrow> descriptor" where
  "IValueProduct T =
     \<lparr>self = t_inst ''IValueProduct'' [T], ret_type = Some T, ctor_args = Some [T],
      prototype_t = None\<rparr>"

definition IIntValue :: descriptor where
  "IIntValue = IValueProduct t_int"

definition IFloatValue :: descriptor where
  "IFloatValue = IValueProduct t_float"

definition IPrototypeProduct :: "int \<Rightarrow> descriptor" where
  "IPrototypeProduct N =
     \<lparr>self = t_inst_int ''IPrototypeProduct'' N, ret_type = None, ctor_args = None,
      prototype_t = Some (t_unique_ptr (t_inst_int ''IPrototypeProduct'' N))\<rparr>"

definition PrototypeProduct :: "int \<Rightarrow> ty" where
  "PrototypeProduct N = t_inst_int ''PrototypeProduct'' N"

text \<open>\<open>has_prototype\<close> and \<open>is_any_of\<close> of the example program.\<close>

definition has_prototype :: "descriptor \<Rightarrow> bool" where
  "has_prototype T = (prototype_t T \<noteq> None)"

fun is_any_of :: "descriptor \<Rightarrow> descriptor list \<Rightarrow> bool" where
  "is_any_of Target [] = False"
| "is_any_of Target (T # Ts) = (if Target = T then True else is_any_of Target Ts)"

text \<open>
  A creator object: the class template instance chosen for one link of the chain,
  with the data member it has. Only the prototype specialization of
  \<open>CustomConcreteCreator\<close> has one, \<open>prototype\<close>, the address its \<open>std::unique_ptr\<close>
  holds.
\<close>

datatype creator =
    default_creator "context" ty
  | value_creator "context" ty
  | prototype_creator "context" ty "nat option"

fun creator_context :: "creator \<Rightarrow> context" where
  "creator_context (default_creator Context Concrete) = Context"
| "creator_context (value_creator Context Concrete) = Context"
| "creator_context (prototype_creator Context Concrete p) = Context"

fun creator_concrete :: "creator \<Rightarrow> ty" where
  "creator_concrete (default_creator Context Concrete) = Concrete"
| "creator_concrete (value_creator Context Concrete) = Concrete"
| "creator_concrete (prototype_creator Context Concrete p) = Concrete"

text \<open>
  The conditions under which the two partial specializations of
  \<open>CustomConcreteCreator\<close> match: a context with exactly one argument type whose
  interface is \<open>IIntValue\<close> or \<open>IFloatValue\<close>; an interface with a \<open>prototype_t\<close>.
  \<open>IValueProduct<T>\<close> declares no \<open>prototype_t\<close>, so the two never match together.
\<close>

definition value_specialization :: "context \<Rightarrow> bool" where
  "value_specialization Context =
     (length (args Context) = 1 \<and> is_any_of (abstract Context) [IIntValue, IFloatValue])"

definition prototype_specialization :: "context \<Rightarrow> bool" where
  "prototype_specialization Context = has_prototype (abstract Context)"

text \<open>
  Instantiating \<open>Creator<Context, Concrete, Base>\<close> and constructing its part of the
  factory object. The prototype member is value-initialized (\<open>prototype{}\<close>): empty.
  The primary template of \<open>CustomConcreteCreator\<close> derives from
  \<open>default_concrete_creator\<close> and adds nothing.
\<close>

definition instantiate_default :: "cxx \<Rightarrow> context \<Rightarrow> ty \<Rightarrow> diagnostic list + creator" where
  "instantiate_default L Context Concrete =
     (case default_concrete_creator_asserts L Context Concrete of
        [] \<Rightarrow> Inr (default_creator Context Concrete)
      | d # ds \<Rightarrow> Inl (d # ds))"

fun instantiate :: "cxx \<Rightarrow> creator_template \<Rightarrow> context \<Rightarrow> ty \<Rightarrow> diagnostic list + creator" where
  "instantiate L default_concrete_creator Context Concrete =
     instantiate_default L Context Concrete"
| "instantiate L CustomConcreteCreator Context Concrete =
     (if value_specialization Context then Inr (value_creator Context Concrete)
      else if prototype_specialization Context then Inr (prototype_creator Context Concrete None)
      else instantiate_default L Context Concrete)"

fun construct :: "cxx \<Rightarrow> chain \<Rightarrow> diagnostic list \<times> creator list" where
  "construct L (Root AF) = ([], [])"
| "construct L (Derived Cr Context Concrete Base) =
     (case construct L Base of
        (ds, cs) \<Rightarrow>
          (case instantiate L Cr Context Concrete of
             Inl es \<Rightarrow> (es @ ds, cs)
           | Inr c \<Rightarrow> (ds, c # cs)))"

text \<open>
  A factory object: the abstract factory it is used through and its creators, the most
  derived first.
\<close>

record factory =
  root :: abstract_factory
  creators :: "creator list"

text \<open>
  \<open>concrete_factory<AbstractFactory, ConcreteList, Creator>\<close>: the class derives from
  the generated chain, with \<open>AbstractFactory\<close> as its root. \<open>abstract_factory\<close> lists
  one creator interface per product as a direct base, and a class cannot name the same
  direct base twice.
\<close>

definition abstract_factory_bases :: "abstract_factory \<Rightarrow> diagnostic list" where
  "abstract_factory_bases AF = (if distinct (context_list AF) then [] else [duplicate_base_class])"

definition concrete_factory ::
  "cxx \<Rightarrow> abstract_factory \<Rightarrow> ty list \<Rightarrow> creator_template \<Rightarrow> diagnostic list + factory"
where
  "concrete_factory L AbstractFactory ConcreteList Cr =
     (case generate_creators Cr AbstractFactory (context_list AbstractFactory) ConcreteList of
        Inl ds \<Rightarrow> Inl (abstract_factory_bases AbstractFactory @ ds)
      | Inr ch \<Rightarrow>
          (case construct L ch of
             (ds, cs) \<Rightarrow>
               (if abstract_factory_bases AbstractFactory @ ds = []
                then Inr \<lparr>root = AbstractFactory, creators = cs\<rparr>
                else Inl (abstract_factory_bases AbstractFactory @ ds))))"

section \<open>Objects and creation\<close>

text \<open>
  The free store: an object remembers the class it was constructed as and the arguments
  its constructor was called with. An address is an index; a deleted object leaves
  \<open>None\<close> behind, and \<open>new\<close> never hands an address out twice. Reading through an
  address that holds no live object has no defined result.
\<close>

record object =
  dynamic_type :: ty
  constructed_from :: "val list"

type_synonym heap = "object option list"

definition new :: "ty \<Rightarrow> val list \<Rightarrow> heap \<Rightarrow> nat \<times> heap" where
  "new Concrete vs h = (length h, h @ [Some \<lparr>dynamic_type = Concrete, constructed_from = vs\<rparr>])"

definition deref :: "heap \<Rightarrow> nat \<Rightarrow> object option" where
  "deref h p = (if p < length h then h ! p else None)"

text \<open>\<open>delete p\<close>: defined for the address of a live object only.\<close>

definition delete :: "nat \<Rightarrow> heap \<Rightarrow> heap option" where
  "delete p h = (case deref h p of None \<Rightarrow> None | Some ob \<Rightarrow> Some (h[p := None]))"

text \<open>
  \<open>PrototypeProduct<N>::Clone\<close>, the only definition of the pure virtual
  \<open>IPrototypeProduct<N>::Clone\<close>: \<open>prototype_t{ new PrototypeProduct() }\<close>. An object of
  any other class has no \<open>Clone\<close> to call.
\<close>

fun Clone :: "object \<Rightarrow> heap \<Rightarrow> (val \<times> heap) option" where
  "Clone ob h =
     (case dynamic_type ob of
        t_inst_int n N \<Rightarrow>
          (if n = ''PrototypeProduct''
           then (case new (PrototypeProduct N) [] h of
                   (p, h') \<Rightarrow> Some (v_handle (t_unique_ptr (self (IPrototypeProduct N))) (Some p), h'))
           else None)
      | _ \<Rightarrow> None)"

text \<open>
  The three definitions of the virtual \<open>create\<close>: \<open>default_concrete_creator\<close>
  (\<open>Ret{ new Concrete(std::forward<Args>(args)...) }\<close>), the value specialization
  (\<open>return arg;\<close>) and the prototype specialization (\<open>return prototype->Clone();\<close>, with
  no test of \<open>prototype\<close>). The value specialization is only ever instantiated for
  a single parameter.
\<close>

fun creator_create :: "cxx \<Rightarrow> creator \<Rightarrow> val list \<Rightarrow> heap \<Rightarrow> (val \<times> heap) outcome" where
  "creator_create L (default_creator Context Concrete) vs h =
     (case new Concrete vs h of (p, h') \<Rightarrow> returned (v_handle (ret Context) (Some p), h'))"
| "creator_create L (value_creator Context Concrete) vs h =
     (case vs of [arg] \<Rightarrow> returned (as_type L (ret Context) arg, h) | _ \<Rightarrow> undefined_behaviour)"
| "creator_create L (prototype_creator Context Concrete prototype) vs h =
     (case prototype of
        None \<Rightarrow> undefined_behaviour
      | Some p \<Rightarrow>
          (case deref h p of
             None \<Rightarrow> undefined_behaviour
           | Some ob \<Rightarrow>
               (case Clone ob h of
                  None \<Rightarrow> undefined_behaviour
                | Some (v, h') \<Rightarrow> returned (as_type L (ret Context) v, h'))))"

text \<open>
  \<open>std::is_base_of<Creator<Abstract>, abstract_factory>\<close>, and the final overrider of
  \<open>Creator<Abstract>::create\<close> in the factory object: the most derived creator that
  defines \<open>create\<close> with the tag and parameters of that interface.
\<close>

definition is_base_of :: "context \<Rightarrow> abstract_factory \<Rightarrow> bool" where
  "is_base_of Context AF = (Context \<in> set (context_list AF))"

definition final_overrider :: "creator list \<Rightarrow> context \<Rightarrow> creator option" where
  "final_overrider cs Context = find (\<lambda>c. creator_context c = Context) cs"

text \<open>
  \<open>abstract_factory::create<Abstract>(args...)\<close>. The first overload takes part in
  overload resolution when \<open>Creator<Abstract>\<close> is a base and the call of its \<open>create\<close>
  is well formed; the second when either fails, and its body holds the two static
  assertions. A call that is compiled goes through \<open>Creator<Abstract>* creator = this\<close>
  to the virtual function.
\<close>

definition create ::
  "cxx \<Rightarrow> factory \<Rightarrow> descriptor \<Rightarrow> val list \<Rightarrow> heap \<Rightarrow> (val \<times> heap) outcome"
where
  "create L f Abstract vs h =
     (let Context = Creator (root f) Abstract;
          registered = is_base_of Context (root f);
          invocable = is_invocable_memfn L Context Abstract (map type_of vs)
      in if registered \<and> invocable
         then (case final_overrider (creators f) Context of
                 None \<Rightarrow> undefined_behaviour
               | Some c \<Rightarrow> creator_create L c (pass_args L (args Context) vs) h)
         else build_failure
                ((if registered then []
                  else [static_assert ''abstract_factory::create(): wrong product type''])
                 @ (if invocable then []
                    else [static_assert ''abstract_factory::create(): wrong arguments''])))"

text \<open>The return type the first overload declares: the \<open>decltype\<close> of the virtual call.\<close>

definition create_decltype :: "abstract_factory \<Rightarrow> descriptor \<Rightarrow> ty" where
  "create_decltype AF Abstract = ret (Creator AF Abstract)"

text \<open>
  \<open>SetPrototype(self, newPrototype)\<close>, the friend of the prototype specialization:
  \<open>self.prototype = std::move(newPrototype)\<close>. Move assignment of a \<open>std::unique_ptr\<close>
  stores the new pointer and deletes the object it held before. No other creator has
  such a friend, so a call with another creator does not compile.
\<close>

fun SetPrototype :: "creator \<Rightarrow> nat option \<Rightarrow> heap \<Rightarrow> (creator \<times> heap) outcome" where
  "SetPrototype (prototype_creator Context Concrete prototype) newPrototype h =
     (case prototype of
        None \<Rightarrow> returned (prototype_creator Context Concrete newPrototype, h)
      | Some q \<Rightarrow>
          (case delete q h of
             None \<Rightarrow> undefined_behaviour
           | Some h' \<Rightarrow> returned (prototype_creator Context Concrete newPrototype, h')))"
| "SetPrototype c newPrototype h = build_failure [no_matching_function]"

text \<open>
  The call \<open>SetPrototype(concreteFactory, handle)\<close> with a handle of the type
  \<open>Abstract::prototype_t\<close> binds \<open>self\<close> to the creator of \<open>Abstract\<close> within the factory
  object.
\<close>

fun SetPrototype_in ::
  "creator list \<Rightarrow> descriptor \<Rightarrow> nat option \<Rightarrow> heap \<Rightarrow> (creator list \<times> heap) outcome"
where
  "SetPrototype_in [] Abstract newPrototype h = build_failure [no_matching_function]"
| "SetPrototype_in (c # cs) Abstract newPrototype h =
     (if abstract (creator_context c) = Abstract
      then map_outcome (\<lambda>(c', h'). (c' # cs, h')) (SetPrototype c newPrototype h)
      else map_outcome (\<lambda>(cs', h'). (c # cs', h')) (SetPrototype_in cs Abstract newPrototype h))"

definition SetPrototype_on ::
  "factory \<Rightarrow> descriptor \<Rightarrow> nat option \<Rightarrow> heap \<Rightarrow> (factory \<times> heap) outcome"
where
  "SetPrototype_on f Abstract newPrototype h =
     map_outcome (\<lambda>(cs', h'). (f\<lparr>creators := cs'\<rparr>, h'))
       (SetPrototype_in (creators f) Abstract newPrototype h)"


text \<open>
  The class of a creator, without the exemplar it holds; two factory objects of the
  same class differ in the exemplars only.
\<close>

fun without_prototype :: "creator \<Rightarrow> creator" where
  "without_prototype (prototype_creator Context Concrete p) = prototype_creator Context Concrete None"
| "without_prototype c = c"

definition same_class :: "factory \<Rightarrow> factory \<Rightarrow> bool" where
  "same_class f0 f =
     (AbstractList (root f) = AbstractList (root f0) \<and> Creator (root f) = Creator (root f0)
      \<and> map without_prototype (creators f) = map without_prototype (creators f0))"

text \<open>The exemplar that the creator of \<open>Abstract\<close> holds, when it is a prototype creator.\<close>

definition held_prototype :: "factory \<Rightarrow> descriptor \<Rightarrow> nat option option" where
  "held_prototype f Abstract =
     (case final_overrider (creators f) (Creator (root f) Abstract) of
        Some (prototype_creator Context Concrete p) \<Rightarrow> Some p
      | _ \<Rightarrow> None)"

text \<open>
  A \<open>std::unique_ptr\<close> owns a live object or is empty: the exemplar that the creator of
  \<open>Abstract\<close> holds, if any, is live on heap \<open>h\<close>.
\<close>

definition exemplar_live :: "factory \<Rightarrow> descriptor \<Rightarrow> heap \<Rightarrow> bool" where
  "exemplar_live f Abstract h =
     (case held_prototype f Abstract of Some (Some q) \<Rightarrow> deref h q \<noteq> None | _ \<Rightarrow> True)"

text \<open>A live \<open>PrototypeProduct<N>\<close>; its only constructor takes no argument.\<close>

definition PrototypeProduct_object :: "int \<Rightarrow> object" where
  "PrototypeProduct_object N = \<lparr>dynamic_type = PrototypeProduct N, constructed_from = []\<rparr>"

text \<open>
  The chain written out: the creators of a list of (context, concrete class) pairs, the
  first pair outermost, over the root.
\<close>

definition chain_of :: "creator_template \<Rightarrow> abstract_factory \<Rightarrow> (context \<times> ty) list \<Rightarrow> chain" where
  "chain_of Cr R ps = foldr (\<lambda>(Context, C) Base. Derived Cr Context C Base) ps (Root R)"

text \<open>What a build reports: nothing when it succeeds.\<close>

fun diagnostics :: "diagnostic list + 'a \<Rightarrow> diagnostic list" where
  "diagnostics (Inl ds) = ds"
| "diagnostics (Inr x) = []"

text \<open>
  The pairs of a chain, the most derived first, and its root.
\<close>

fun links :: "chain \<Rightarrow> (context \<times> ty) list" where
  "links (Root R) = []"
| "links (Derived Cr Context C Base) = (Context, C) # links Base"

fun chain_root :: "chain \<Rightarrow> abstract_factory" where
  "chain_root (Root R) = R"
| "chain_root (Derived Cr Context C Base) = chain_root Base"

text \<open>
  A link is created by \<open>default_concrete_creator\<close> when that is the creator template, or
  when the template is \<open>CustomConcreteCreator\<close> and neither of its specializations
  matches the context.
\<close>

definition default_policy :: "creator_template \<Rightarrow> context \<Rightarrow> bool" where
  "default_policy Cr Context =
     (Cr = default_concrete_creator
      \<or> (\<not> value_specialization Context \<and> \<not> prototype_specialization Context))"

text \<open>
  What \<open>prototype->Clone()\<close> comes to on heap \<open>h\<close> when the exemplar is a
  \<open>PrototypeProduct<N>\<close>, returned as the result type of \<open>Context\<close>: a handle to a new
  \<open>PrototypeProduct<N>\<close> at the next free address.
\<close>

definition clone_result :: "cxx \<Rightarrow> context \<Rightarrow> int \<Rightarrow> heap \<Rightarrow> (val \<times> heap) outcome" where
  "clone_result L Context N h =
     returned
       (as_type L (ret Context)
          (v_handle (t_unique_ptr (self (IPrototypeProduct N))) (Some (length h))),
        h @ [Some (PrototypeProduct_object N)])"

section \<open>The example program\<close>

definition IUniqueProduct :: descriptor where
  "IUniqueProduct =
     \<lparr>self = t_class ''IUniqueProduct'', ret_type = None, ctor_args = None, prototype_t = None\<rparr>"

definition ISharedProduct :: descriptor where
  "ISharedProduct =
     \<lparr>self = t_class ''ISharedProduct'',
      ret_type = Some (t_shared_ptr (t_class ''ISharedProduct'')),
      ctor_args = None, prototype_t = None\<rparr>"

definition IRawProduct :: descriptor where
  "IRawProduct =
     \<lparr>self = t_class ''IRawProduct'', ret_type = Some (t_ptr (t_class ''IRawProduct'')),
      ctor_args = Some [t_bool, t_int], prototype_t = None\<rparr>"

definition IExistingSharedProduct :: descriptor where
  "IExistingSharedProduct =
     \<lparr>self = t_class ''IExistingSharedProduct'', ret_type = None, ctor_args = None,
      prototype_t = None\<rparr>"

definition IExistingFactoryProduct :: descriptor where
  "IExistingFactoryProduct =
     make_factory_interface IExistingSharedProduct
       (t_shared_ptr (t_class ''IExistingSharedProduct'')) []"

definition UniqueProduct :: ty where "UniqueProduct = t_class ''UniqueProduct''"
definition SharedProduct :: ty where "SharedProduct = t_class ''SharedProduct''"
definition RawProduct :: ty where "RawProduct = t_class ''RawProduct''"
definition ExistingSharedProduct :: ty where "ExistingSharedProduct = t_class ''ExistingSharedProduct''"

definition AFactory :: abstract_factory where
  "AFactory =
     \<lparr>AbstractList =
        [IUniqueProduct, ISharedProduct, IRawProduct, IIntValue, IFloatValue,
         IPrototypeProduct 0, IPrototypeProduct 1, IExistingFactoryProduct],
      Creator = default_abstract_creator\<rparr>"

definition CFactory_ConcreteList :: "ty list" where
  "CFactory_ConcreteList =
     [UniqueProduct, SharedProduct, RawProduct, self IIntValue, self IFloatValue,
      self (IPrototypeProduct 0), self (IPrototypeProduct 1), ExistingSharedProduct]"

text \<open>
  What the compiler answers for the classes of the example program: the base class of
  each concrete product, its constructors, the conversions between arithmetic types,
  and a pointer-like type made from a pointer to a derived class.
\<close>

fun example_base :: "ty \<Rightarrow> ty option" where
  "example_base (t_class n) =
     (if n = ''UniqueProduct'' then Some (t_class ''IUniqueProduct'')
      else if n = ''SharedProduct'' then Some (t_class ''ISharedProduct'')
      else if n = ''RawProduct'' then Some (t_class ''IRawProduct'')
      else if n = ''ExistingSharedProduct'' then Some (t_class ''IExistingSharedProduct'')
      else None)"
| "example_base (t_inst_int n N) =
     (if n = ''PrototypeProduct'' then Some (t_inst_int ''IPrototypeProduct'' N) else None)"
| "example_base T = None"

definition arithmetic :: "ty \<Rightarrow> bool" where
  "arithmetic T = (T = t_bool \<or> T = t_int \<or> T = t_float \<or> T = t_double)"

definition example_convertible :: "ty \<Rightarrow> ty \<Rightarrow> bool" where
  "example_convertible From To = (From = To \<or> (arithmetic From \<and> arithmetic To))"

fun pointee :: "ty \<Rightarrow> ty option" where
  "pointee (t_ptr T) = Some T"
| "pointee (t_unique_ptr T) = Some T"
| "pointee (t_shared_ptr T) = Some T"
| "pointee T = None"

definition example_constructible :: "ty \<Rightarrow> ty list \<Rightarrow> bool" where
  "example_constructible T Args =
     (if T = RawProduct then list_all2 example_convertible Args [t_bool, t_int]
      else if T \<in> set [UniqueProduct, SharedProduct, ExistingSharedProduct] then Args = []
      else if example_base T \<noteq> None then Args = []
      else (case (pointee T, Args) of
              (Some B, [t_ptr D]) \<Rightarrow> D = B \<or> example_base D = Some B
            | _ \<Rightarrow> False))"

fun example_convert :: "ty \<Rightarrow> val \<Rightarrow> val" where
  "example_convert t_int (v_bool b) = v_int (if b then 1 else 0)"
| "example_convert t_bool (v_int i) = v_bool (i \<noteq> 0)"
| "example_convert T v = v"

definition example_cxx :: cxx where
  "example_cxx =
     \<lparr>is_constructible = example_constructible, is_convertible = example_convertible,
      convert = example_convert\<rparr>"

text \<open>
  \<open>CFactory concreteFactory;\<close> of \<open>main\<close>: the object that
  \<open>concrete_factory<AFactory, ..., CustomConcreteCreator>\<close> constructs.
\<close>

definition concreteFactory :: factory where
  "concreteFactory =
     \<lparr>root = AFactory,
      creators =
        [default_creator (default_abstract_creator IUniqueProduct) UniqueProduct,
         default_creator (default_abstract_creator ISharedProduct) SharedProduct,
         default_creator (default_abstract_creator IRawProduct) RawProduct,
         value_creator (default_abstract_creator IIntValue) (self IIntValue),
         value_creator (default_abstract_creator IFloatValue) (self IFloatValue),
         prototype_creator (default_abstract_creator (IPrototypeProduct 0))
           (self (IPrototypeProduct 0)) None,
         prototype_creator (default_abstract_creator (IPrototypeProduct 1))
           (self (IPrototypeProduct 1)) None,
         default_creator (default_abstract_creator IExistingFactoryProduct)
           ExistingSharedProduct]\<rparr>"

section \<open>Trait resolution\<close>

text \<open>
  C2. For every product interface \<open>D\<close> the resolved result type is \<open>D::ret_type\<close> when
  \<open>D\<close> declares one and \<open>std::unique_ptr<D>\<close> otherwise; the resolved argument list is
  \<open>D::ctor_args\<close> when declared and empty otherwise. Each trait is resolved without
  looking at the other, and both are total: there is no interface for which the
  resolution has no answer.
\<close>

theorem trait_resolution:
  "ret (default_abstract_creator D) = (case ret_type D of Some r \<Rightarrow> r | None \<Rightarrow> t_unique_ptr (self D))
   \<and> args (default_abstract_creator D) = (case ctor_args D of Some as \<Rightarrow> as | None \<Rightarrow> [])
   \<and> abstract (default_abstract_creator D) = D
   \<and> get_ret_type (D\<lparr>ctor_args := x\<rparr>) Default = get_ret_type D Default
   \<and> get_ctor_args (D\<lparr>ret_type := y\<rparr>) = get_ctor_args D"
  by (simp add: default_abstract_creator_def abstract_creator_interface_def get_ret_type_def
      get_ctor_args_def split: option.splits)

theorem trait_resolution_witness:
  "ret (default_abstract_creator IUniqueProduct) = t_unique_ptr (t_class ''IUniqueProduct'')
   \<and> args (default_abstract_creator IUniqueProduct) = []
   \<and> ret (default_abstract_creator IRawProduct) = t_ptr (t_class ''IRawProduct'')
   \<and> args (default_abstract_creator IRawProduct) = [t_bool, t_int]
   \<and> ret (default_abstract_creator ISharedProduct) = t_shared_ptr (t_class ''ISharedProduct'')
   \<and> args (default_abstract_creator ISharedProduct) = []"
  using trait_resolution [of IUniqueProduct] trait_resolution [of IRawProduct]
    trait_resolution [of ISharedProduct]
  by (simp add: IUniqueProduct_def IRawProduct_def ISharedProduct_def)

section \<open>Composition of the chain\<close>

lemma generate_creators_Cons:
  "generate_creators Cr R (Context # Contexts) (C0 # Cs) =
     (if Contexts = [] \<and> Cs = [] then Inr (Derived Cr Context C0 (Root R))
      else if length Contexts = length Cs
      then (case generate_creators Cr R Contexts Cs of
              Inl ds \<Rightarrow> Inl ds
            | Inr Base \<Rightarrow> Inr (Derived Cr Context C0 Base))
      else (case generate_creators Cr R Contexts Cs of
              Inl ds \<Rightarrow>
                Inl (static_assert ''Abstract and concrete lists are of different length'' # ds)
            | Inr Base \<Rightarrow>
                Inl [static_assert ''Abstract and concrete lists are of different length'']))"
  by (cases Contexts; cases Cs) (simp_all split: sum.splits)

lemma generate_creators_empty:
  "Contexts = [] \<or> Cs = [] \<Longrightarrow> generate_creators Cr R Contexts Cs = Inl [incomplete_type]"
  by (cases Contexts; cases Cs) auto

lemma generate_creators_zip:
  "length Contexts = length Cs \<Longrightarrow> Contexts \<noteq> [] \<Longrightarrow>
   generate_creators Cr R Contexts Cs = Inr (chain_of Cr R (zip Contexts Cs))"
proof (induction Contexts arbitrary: Cs)
  case Nil
  then show ?case by simp
next
  case (Cons Context Contexts)
  then obtain C0 Cs' where Cs: "Cs = C0 # Cs'" by (cases Cs) auto
  show ?case
  proof (cases "Contexts = []")
    case True
    with Cons.prems Cs show ?thesis by (simp add: chain_of_def)
  next
    case False
    with Cons.prems Cs have "generate_creators Cr R Contexts Cs' = Inr (chain_of Cr R (zip Contexts Cs'))"
      by (intro Cons.IH) auto
    with Cons.prems Cs False show ?thesis
      by (simp add: generate_creators_Cons chain_of_def del: generate_creators.simps)
  qed
qed

lemma generate_creators_Inr:
  "generate_creators Cr R Contexts Cs = Inr ch \<Longrightarrow> length Contexts = length Cs \<and> Contexts \<noteq> []"
proof (cases "Contexts = [] \<or> Cs = []")
  case True
  assume "generate_creators Cr R Contexts Cs = Inr ch"
  with generate_creators_empty [OF True, of Cr R] show ?thesis by simp
next
  case False
  assume r: "generate_creators Cr R Contexts Cs = Inr ch"
  from False obtain Context Contexts' C0 Cs' where
    eq: "Contexts = Context # Contexts'" "Cs = C0 # Cs'"
    by (cases Contexts; cases Cs) auto
  from r show ?thesis unfolding eq
    by (auto simp: generate_creators_Cons simp del: generate_creators.simps
        split: if_splits sum.splits)
qed

lemma generate_creators_mismatch:
  "length Contexts \<noteq> length Cs \<Longrightarrow> Contexts \<noteq> [] \<Longrightarrow> Cs \<noteq> [] \<Longrightarrow>
   \<exists>ds. generate_creators Cr R Contexts Cs =
     Inl (static_assert ''Abstract and concrete lists are of different length'' # ds)"
proof -
  assume a: "length Contexts \<noteq> length Cs" "Contexts \<noteq> []" "Cs \<noteq> []"
  then obtain Context Contexts' C0 Cs' where
    eq: "Contexts = Context # Contexts'" "Cs = C0 # Cs'"
    by (cases Contexts; cases Cs) auto
  from a show ?thesis unfolding eq
    by (auto simp: generate_creators_Cons simp del: generate_creators.simps split: sum.splits)
qed

lemma specializations_exclusive:
  "value_specialization x \<Longrightarrow> \<not> prototype_specialization x"
  by (auto simp: value_specialization_def prototype_specialization_def has_prototype_def
      IIntValue_def IFloatValue_def IValueProduct_def split: if_splits)

lemma instantiate_Inl_nonempty: "instantiate L Cr x c = Inl es \<Longrightarrow> es \<noteq> []"
  by (cases Cr) (auto simp: instantiate_default_def split: if_splits list.splits)

lemma instantiate_Inr:
  "instantiate L Cr x c = Inr cr \<Longrightarrow>
   creator_context cr = x \<and> creator_concrete cr = c \<and> without_prototype cr = cr"
  by (cases Cr) (auto simp: instantiate_default_def split: if_splits list.splits)

lemma instantiate_default_policy:
  "default_policy Cr x \<Longrightarrow> instantiate L Cr x c = instantiate_default L x c"
  by (cases Cr) (auto simp: default_policy_def)

lemma chain_of_Cons: "chain_of Cr R ((x, c) # ps) = Derived Cr x c (chain_of Cr R ps)"
  by (simp add: chain_of_def)

lemma chain_of_Nil: "chain_of Cr R [] = Root R"
  by (simp add: chain_of_def)

lemma links_chain_of: "links (chain_of Cr R ps) = ps"
  by (induction ps) (auto simp: chain_of_Cons chain_of_Nil)

lemma chain_root_chain_of: "chain_root (chain_of Cr R ps) = R"
  by (induction ps) (auto simp: chain_of_Cons chain_of_Nil)

lemma construct_diagnostics:
  "(x, c) \<in> set ps \<Longrightarrow> instantiate L Cr x c = Inl es \<Longrightarrow>
   set es \<subseteq> set (fst (construct L (chain_of Cr R ps)))"
proof (induction ps)
  case Nil
  then show ?case by simp
next
  case (Cons p ps)
  obtain y k where p: "p = (y, k)" by (cases p)
  obtain ds cs where r: "construct L (chain_of Cr R ps) = (ds, cs)" by (cases "construct L (chain_of Cr R ps)")
  show ?case
  proof (cases "(x, c) = p")
    case True
    with Cons.prems p r show ?thesis by (simp add: chain_of_Cons)
  next
    case False
    with Cons have "set es \<subseteq> set ds" using r by simp
    with p r show ?thesis by (auto simp: chain_of_Cons split: sum.splits)
  qed
qed

lemma construct_ok:
  "construct L (chain_of Cr R ps) = ([], cs) \<Longrightarrow>
   list_all2 (\<lambda>(x, c) cr. instantiate L Cr x c = Inr cr) ps cs"
proof (induction ps arbitrary: cs)
  case Nil
  then show ?case by (simp add: chain_of_Nil)
next
  case (Cons p ps)
  obtain y k where p: "p = (y, k)" by (cases p)
  obtain ds cs' where r: "construct L (chain_of Cr R ps) = (ds, cs')" by (cases "construct L (chain_of Cr R ps)")
  from Cons.prems p r show ?case
    using Cons.IH [of cs'] instantiate_Inl_nonempty [of L Cr y k]
    by (auto simp: chain_of_Cons split: sum.splits)
qed

lemma construct_all_ok:
  "list_all2 (\<lambda>(x, c) cr. instantiate L Cr x c = Inr cr) ps cs \<Longrightarrow>
   construct L (chain_of Cr R ps) = ([], cs)"
proof (induction ps arbitrary: cs)
  case Nil
  then show ?case by (simp add: chain_of_Nil)
next
  case (Cons p ps)
  obtain y k where p: "p = (y, k)" by (cases p)
  from Cons.prems p obtain cr cs' where cs: "cs = cr # cs'" "instantiate L Cr y k = Inr cr"
    "list_all2 (\<lambda>(x, c) cr. instantiate L Cr x c = Inr cr) ps cs'"
    by (auto simp: list_all2_Cons1)
  with Cons.IH [of cs'] p show ?case by (simp add: chain_of_Cons)
qed

lemma length_context_list: "length (context_list AF) = length (AbstractList AF)"
  by (simp add: context_list_def)

lemma concrete_factory_Inr:
  assumes "concrete_factory L AF Cs Cr = Inr f"
  shows "root f = AF" and "distinct (context_list AF)" and "length Cs = length (AbstractList AF)"
    and "AbstractList AF \<noteq> []"
    and "list_all2 (\<lambda>(x, c) cr. instantiate L Cr x c = Inr cr) (zip (context_list AF) Cs) (creators f)"
proof -
  from assms obtain ch where g: "generate_creators Cr AF (context_list AF) Cs = Inr ch"
    by (auto simp: concrete_factory_def split: sum.splits)
  from generate_creators_Inr [OF g] have len: "length (context_list AF) = length Cs"
    and ne: "context_list AF \<noteq> []" by auto
  from len show "length Cs = length (AbstractList AF)" by (simp add: length_context_list)
  from ne show "AbstractList AF \<noteq> []" by (auto simp: context_list_def)
  from generate_creators_zip [OF len ne, of Cr AF] g
  have ch: "ch = chain_of Cr AF (zip (context_list AF) Cs)" by simp
  obtain ds cs where c: "construct L ch = (ds, cs)" by (cases "construct L ch")
  from assms g c have b: "abstract_factory_bases AF = []" and ds: "ds = []"
    and f: "f = \<lparr>root = AF, creators = cs\<rparr>"
    by (auto simp: concrete_factory_def split: if_splits)
  from f show "root f = AF" by simp
  from b show "distinct (context_list AF)"
    by (auto simp: abstract_factory_bases_def split: if_splits)
  from c ds ch f construct_ok [of L Cr AF "zip (context_list AF) Cs" cs]
  show "list_all2 (\<lambda>(x, c) cr. instantiate L Cr x c = Inr cr) (zip (context_list AF) Cs) (creators f)"
    by simp
qed

lemma find_distinct_nth:
  "distinct (map g xs) \<Longrightarrow> i < length xs \<Longrightarrow> find (\<lambda>x. g x = g (xs ! i)) xs = Some (xs ! i)"
proof (induction xs arbitrary: i)
  case Nil
  then show ?case by simp
next
  case (Cons x xs)
  then show ?case by (cases i) (auto simp: image_iff)
qed

lemma creator_context_without_prototype [simp]:
  "creator_context (without_prototype c) = creator_context c"
  by (cases c) auto

lemma creator_concrete_without_prototype [simp]:
  "creator_concrete (without_prototype c) = creator_concrete c"
  by (cases c) auto

lemma same_class_nth:
  assumes build: "concrete_factory L AF Cs Cr = Inr f0" and same: "same_class f0 f"
    and i: "i < length (AbstractList AF)"
  shows "length (creators f) = length (AbstractList AF)"
    and "instantiate L Cr (Creator AF (AbstractList AF ! i)) (Cs ! i) = Inr (without_prototype (creators f ! i))"
    and "creator_context (creators f ! i) = Creator AF (AbstractList AF ! i)"
    and "creator_concrete (creators f ! i) = Cs ! i"
    and "final_overrider (creators f) (Creator AF (AbstractList AF ! i)) = Some (creators f ! i)"
    and "root f = AF"
proof -
  note b = concrete_factory_Inr [OF build]
  let ?ps = "zip (context_list AF) Cs"
  from b(5) have "length ?ps = length (creators f0)" by (rule list_all2_lengthD)
  then have len0: "length (creators f0) = length ?ps" by simp
  with b(3) have len0': "length (creators f0) = length (AbstractList AF)"
    by (simp add: length_context_list)
  from same have m: "map without_prototype (creators f) = map without_prototype (creators f0)"
    by (simp add: same_class_def)
  from m have "length (map without_prototype (creators f)) = length (map without_prototype (creators f0))"
    by simp
  with len0' show len: "length (creators f) = length (AbstractList AF)" by simp
  from same b(1) show "root f = AF"
    by (cases "root f"; cases AF) (auto simp: same_class_def)
  from i b(3) have nth: "?ps ! i = (Creator AF (AbstractList AF ! i), Cs ! i)"
    by (simp add: context_list_def)
  from b(3) have lps: "length ?ps = length (AbstractList AF)"
    by (simp add: length_context_list)
  from i lps have "i < length ?ps" by simp
  from list_all2_nthD [OF b(5) this]
  have "(\<lambda>(x, c) cr. instantiate L Cr x c = Inr cr) (?ps ! i) (creators f0 ! i)" .
  with nth have inst0: "instantiate L Cr (Creator AF (AbstractList AF ! i)) (Cs ! i) = Inr (creators f0 ! i)"
    by simp
  from m i len len0' have wp: "without_prototype (creators f ! i) = without_prototype (creators f0 ! i)"
    by (metis nth_map)
  from instantiate_Inr [OF inst0] wp
  have wp': "without_prototype (creators f ! i) = creators f0 ! i" by simp
  with inst0 show "instantiate L Cr (Creator AF (AbstractList AF ! i)) (Cs ! i) = Inr (without_prototype (creators f ! i))"
    by simp
  from instantiate_Inr [OF inst0] wp'
  show ctx: "creator_context (creators f ! i) = Creator AF (AbstractList AF ! i)"
    by (metis creator_context_without_prototype)
  from instantiate_Inr [OF inst0] wp'
  show "creator_concrete (creators f ! i) = Cs ! i"
    by (metis creator_concrete_without_prototype)
  have ctxs: "map creator_context (creators f) = context_list AF"
  proof (rule nth_equalityI)
    show "length (map creator_context (creators f)) = length (context_list AF)"
      using len by (simp add: length_context_list)
  next
    fix j assume j: "j < length (map creator_context (creators f))"
    with len have j': "j < length (AbstractList AF)" by simp
    from b(3) j' have nthj: "?ps ! j = (Creator AF (AbstractList AF ! j), Cs ! j)"
      by (simp add: context_list_def)
    from j' lps have "j < length ?ps" by simp
    from list_all2_nthD [OF b(5) this]
    have "(\<lambda>(x, c) cr. instantiate L Cr x c = Inr cr) (?ps ! j) (creators f0 ! j)" .
    with nthj have inj: "instantiate L Cr (Creator AF (AbstractList AF ! j)) (Cs ! j) = Inr (creators f0 ! j)"
      by simp
    from m j' len len0' have "without_prototype (creators f ! j) = without_prototype (creators f0 ! j)"
      by (metis nth_map)
    with instantiate_Inr [OF inj] have "creator_context (creators f ! j) = Creator AF (AbstractList AF ! j)"
      by (metis creator_context_without_prototype)
    with j j' show "map creator_context (creators f) ! j = context_list AF ! j"
      by (simp add: context_list_def)
  qed
  with b(2) have d: "distinct (map creator_context (creators f))" by simp
  from find_distinct_nth [OF d, of i] i len ctx
  show "final_overrider (creators f) (Creator AF (AbstractList AF ! i)) = Some (creators f ! i)"
    by (simp add: final_overrider_def)
qed

lemma pass_args_same_types: "map type_of vs = Params \<Longrightarrow> pass_args L Params vs = vs"
proof (induction vs arbitrary: Params)
  case Nil
  then show ?case by (simp add: pass_args_def)
next
  case (Cons v vs)
  then show ?case by (cases Params) (auto simp: pass_args_def as_type_def)
qed

lemma registered_is_base_of:
  "D \<in> set (AbstractList AF) \<Longrightarrow> is_base_of (Creator AF D) AF"
  by (simp add: is_base_of_def context_list_def)

lemma create_foreign_tag:
  "D \<in> set (AbstractList (root f)) \<Longrightarrow> abstract (Creator (root f) D) \<noteq> D \<Longrightarrow>
   create L f D vs h
     = build_failure [static_assert ''abstract_factory::create(): wrong arguments'']"
  using registered_is_base_of [of D "root f"]
  by (simp add: create_def is_invocable_memfn_def)

lemma create_foreign_tag_example:
  "concrete_factory example_cxx
      \<lparr>AbstractList = [IUniqueProduct], Creator = \<lambda>X. default_abstract_creator ISharedProduct\<rparr>
      [SharedProduct] default_concrete_creator
     = Inr \<lparr>root = \<lparr>AbstractList = [IUniqueProduct],
                        Creator = \<lambda>X. default_abstract_creator ISharedProduct\<rparr>,
             creators = [default_creator (default_abstract_creator ISharedProduct) SharedProduct]\<rparr>
   \<and> create example_cxx
        \<lparr>root = \<lparr>AbstractList = [IUniqueProduct],
                   Creator = \<lambda>X. default_abstract_creator ISharedProduct\<rparr>,
         creators = [default_creator (default_abstract_creator ISharedProduct) SharedProduct]\<rparr>
        IUniqueProduct [] []
     = build_failure [static_assert ''abstract_factory::create(): wrong arguments'']"
  by (simp add: concrete_factory_def context_list_def abstract_factory_bases_def
      default_abstract_creator_def abstract_creator_interface_def get_ret_type_def
      get_ctor_args_def instantiate_default_def default_concrete_creator_asserts_def
      create_def is_base_of_def is_invocable_memfn_def
      IUniqueProduct_def ISharedProduct_def SharedProduct_def
      example_cxx_def example_constructible_def example_convertible_def arithmetic_def
      UniqueProduct_def ExistingSharedProduct_def RawProduct_def)

section \<open>The example program builds\<close>

lemmas example_types =
  IUniqueProduct_def ISharedProduct_def IRawProduct_def IExistingSharedProduct_def
  IExistingFactoryProduct_def IValueProduct_def IIntValue_def IFloatValue_def
  IPrototypeProduct_def PrototypeProduct_def UniqueProduct_def SharedProduct_def
  RawProduct_def ExistingSharedProduct_def tl_type_def

lemmas example_compiler =
  example_cxx_def example_constructible_def example_convertible_def arithmetic_def

lemmas build_defs =
  concrete_factory_def context_list_def abstract_factory_bases_def
  default_abstract_creator_def abstract_creator_interface_def get_ret_type_def
  get_ctor_args_def instantiate_default_def default_concrete_creator_asserts_def
  value_specialization_def prototype_specialization_def has_prototype_def

lemma example_build:
  "concrete_factory example_cxx AFactory CFactory_ConcreteList CustomConcreteCreator
     = Inr concreteFactory"
  by (simp add: AFactory_def CFactory_ConcreteList_def concreteFactory_def build_defs
      example_types example_compiler)

lemma same_class_refl: "same_class f f"
  by (simp add: same_class_def)

section \<open>Dispatch\<close>

text \<open>
  C1. Let a factory object be built from a list of product interfaces and a list of
  concrete classes, and let \<open>D\<close> be the interface at position \<open>i\<close>, with a creator
  interface that carries the tag of \<open>D\<close> itself. A call \<open>create<D>(args...)\<close> whose
  arguments match the parameters of that interface (as many, each convertible to its
  parameter) is well formed and selects the creator at position \<open>i\<close>: the one
  instantiated for \<open>D\<close>'s context and the concrete class at \<open>i\<close>. The arguments are
  passed to its virtual \<open>create\<close> in their order (unchanged when their types are the
  parameter types), what that function does is what the call does, and the type the
  call is declared to return is the result type of that context. The factory object
  may hold any exemplars in its prototype creators.
\<close>

theorem create_dispatches_to_bound_creator:
  assumes "concrete_factory L AF Cs Cr = Inr f0" and "same_class f0 f"
    and "i < length (AbstractList AF)"
    and "abstract (Creator AF (AbstractList AF ! i)) = AbstractList AF ! i"
    and "list_all2 (is_convertible L) (map type_of vs) (args (Creator AF (AbstractList AF ! i)))"
  shows "is_invocable_memfn L (Creator AF (AbstractList AF ! i)) (AbstractList AF ! i)
           (map type_of vs)
    \<and> final_overrider (creators f) (Creator AF (AbstractList AF ! i)) = Some (creators f ! i)
    \<and> creator_context (creators f ! i) = Creator AF (AbstractList AF ! i)
    \<and> abstract (creator_context (creators f ! i)) = AbstractList AF ! i
    \<and> creator_concrete (creators f ! i) = Cs ! i
    \<and> instantiate L Cr (Creator AF (AbstractList AF ! i)) (Cs ! i)
        = Inr (without_prototype (creators f ! i))
    \<and> create L f (AbstractList AF ! i) vs h
        = creator_create L (creators f ! i)
            (pass_args L (args (Creator AF (AbstractList AF ! i))) vs) h
    \<and> length (pass_args L (args (Creator AF (AbstractList AF ! i))) vs) = length vs
    \<and> (map type_of vs = args (Creator AF (AbstractList AF ! i))
        \<longrightarrow> pass_args L (args (Creator AF (AbstractList AF ! i))) vs = vs)
    \<and> ret (creator_context (creators f ! i)) = create_decltype (root f) (AbstractList AF ! i)"
proof -
  note n = same_class_nth [OF assms(1,2,3)]
  from assms(4,5) have inv: "is_invocable_memfn L (Creator AF (AbstractList AF ! i))
      (AbstractList AF ! i) (map type_of vs)"
    by (simp add: is_invocable_memfn_def)
  from assms(3) have reg: "is_base_of (Creator AF (AbstractList AF ! i)) AF"
    by (intro registered_is_base_of) simp
  from assms(5) have len: "length vs = length (args (Creator AF (AbstractList AF ! i)))"
    by (auto dest: list_all2_lengthD)
  have cr: "create L f (AbstractList AF ! i) vs h
        = creator_create L (creators f ! i)
            (pass_args L (args (Creator AF (AbstractList AF ! i))) vs) h"
    using reg inv n(5) n(6) by (simp add: create_def)
  have same: "map type_of vs = args (Creator AF (AbstractList AF ! i))
        \<longrightarrow> pass_args L (args (Creator AF (AbstractList AF ! i))) vs = vs"
    by (simp add: pass_args_same_types)
  have l: "length (pass_args L (args (Creator AF (AbstractList AF ! i))) vs) = length vs"
    using len by (simp add: pass_args_def)
  from n cr same l inv assms(4) show ?thesis
    by (simp add: create_decltype_def)
qed

theorem create_dispatches_witness:
  "final_overrider (creators concreteFactory) (default_abstract_creator IRawProduct)
     = Some (default_creator (default_abstract_creator IRawProduct) RawProduct)
   \<and> create example_cxx concreteFactory IRawProduct [v_bool True, v_int 1] []
     = creator_create example_cxx (default_creator (default_abstract_creator IRawProduct) RawProduct)
         [v_bool True, v_int 1] []
   \<and> create_decltype AFactory IRawProduct = t_ptr (t_class ''IRawProduct'')"
  using create_dispatches_to_bound_creator
    [OF example_build same_class_refl, of 2 "[v_bool True, v_int 1]" "[]"]
  by (simp add: AFactory_def CFactory_ConcreteList_def concreteFactory_def
      is_invocable_memfn_def default_abstract_creator_def abstract_creator_interface_def
      get_ret_type_def get_ctor_args_def create_decltype_def example_types example_compiler)

text \<open>
  C3. With creator interfaces that carry their own product tag (as every
  \<open>abstract_creator_interface<Abstract, ...>\<close> does): a call \<open>create<D>(args...)\<close> for an
  interface \<open>D\<close> that is not in the factory's list does not compile, and the static
  assertion \<open>wrong product type\<close> is among the diagnostics; a call for a listed \<open>D\<close> whose
  arguments do not match its parameters, in number or because one of them is not
  convertible to its parameter, does not compile either, with the static assertion
  \<open>wrong arguments\<close>. Neither call has a run-time outcome.
\<close>

theorem create_rejects_at_build_time:
  assumes "\<And>X. abstract (Creator (root f) X) = X"
  shows "(D \<notin> set (AbstractList (root f)) \<longrightarrow>
            (\<exists>ds. create L f D vs h = build_failure ds
               \<and> static_assert ''abstract_factory::create(): wrong product type'' \<in> set ds))
    \<and> (D \<in> set (AbstractList (root f))
          \<and> \<not> is_invocable_memfn L (Creator (root f) D) D (map type_of vs) \<longrightarrow>
            create L f D vs h
              = build_failure [static_assert ''abstract_factory::create(): wrong arguments''])
    \<and> (length vs \<noteq> length (args (Creator (root f) D)) \<longrightarrow>
          \<not> is_invocable_memfn L (Creator (root f) D) D (map type_of vs))
    \<and> (j < length vs \<and> \<not> is_convertible L (type_of (vs ! j)) (args (Creator (root f) D) ! j) \<longrightarrow>
          \<not> is_invocable_memfn L (Creator (root f) D) D (map type_of vs))"
proof -
  have unreg: "\<not> is_base_of (Creator (root f) D) (root f)" if "D \<notin> set (AbstractList (root f))"
  proof
    assume "is_base_of (Creator (root f) D) (root f)"
    then obtain X where X: "X \<in> set (AbstractList (root f))" "Creator (root f) D = Creator (root f) X"
      by (auto simp: is_base_of_def context_list_def)
    from X(2) have "abstract (Creator (root f) D) = abstract (Creator (root f) X)" by simp
    with assms have "D = X" by simp
    with X(1) that show False by simp
  qed
  have a: "D \<notin> set (AbstractList (root f)) \<longrightarrow>
            (\<exists>ds. create L f D vs h = build_failure ds
               \<and> static_assert ''abstract_factory::create(): wrong product type'' \<in> set ds)"
    using unreg by (simp add: create_def)
  have b: "D \<in> set (AbstractList (root f))
          \<and> \<not> is_invocable_memfn L (Creator (root f) D) D (map type_of vs) \<longrightarrow>
            create L f D vs h
              = build_failure [static_assert ''abstract_factory::create(): wrong arguments'']"
    using registered_is_base_of [of D "root f"] by (simp add: create_def)
  have c: "length vs \<noteq> length (args (Creator (root f) D)) \<longrightarrow>
          \<not> is_invocable_memfn L (Creator (root f) D) D (map type_of vs)"
    by (auto simp: is_invocable_memfn_def dest: list_all2_lengthD)
  have d: "j < length vs \<and> \<not> is_convertible L (type_of (vs ! j)) (args (Creator (root f) D) ! j) \<longrightarrow>
          \<not> is_invocable_memfn L (Creator (root f) D) D (map type_of vs)"
    by (auto simp: is_invocable_memfn_def dest: list_all2_nthD)
  from a b c d show ?thesis by blast
qed

theorem create_rejects_witness:
  "create example_cxx concreteFactory IExistingSharedProduct [] []
     = build_failure [static_assert ''abstract_factory::create(): wrong product type'']
   \<and> create example_cxx concreteFactory IRawProduct [v_bool True] []
     = build_failure [static_assert ''abstract_factory::create(): wrong arguments'']
   \<and> create example_cxx concreteFactory IRawProduct [v_bool True, v_handle t_cstring (Some 0)] []
     = build_failure [static_assert ''abstract_factory::create(): wrong arguments'']"
proof -
  have t: "\<And>X. abstract (Creator (root concreteFactory) X) = X"
    by (simp add: concreteFactory_def AFactory_def default_abstract_creator_def
        abstract_creator_interface_def)
  have 1: "create example_cxx concreteFactory IExistingSharedProduct [] []
     = build_failure [static_assert ''abstract_factory::create(): wrong product type'']"
    using create_rejects_at_build_time [OF t, of IExistingSharedProduct example_cxx "[]" "[]" 0]
    by (simp add: create_def is_base_of_def context_list_def is_invocable_memfn_def
        concreteFactory_def AFactory_def default_abstract_creator_def
        abstract_creator_interface_def get_ret_type_def get_ctor_args_def
        example_types example_compiler)
  have 2: "create example_cxx concreteFactory IRawProduct [v_bool True] []
     = build_failure [static_assert ''abstract_factory::create(): wrong arguments'']"
    using create_rejects_at_build_time [OF t, of IRawProduct example_cxx "[v_bool True]" "[]" 0]
    by (simp add: is_invocable_memfn_def
        concreteFactory_def AFactory_def default_abstract_creator_def
        abstract_creator_interface_def get_ret_type_def get_ctor_args_def
        example_types example_compiler)
  have 3: "create example_cxx concreteFactory IRawProduct [v_bool True, v_handle t_cstring (Some 0)] []
     = build_failure [static_assert ''abstract_factory::create(): wrong arguments'']"
    using create_rejects_at_build_time
      [OF t, of IRawProduct example_cxx "[v_bool True, v_handle t_cstring (Some 0)]" "[]" 1]
    by (simp add: is_invocable_memfn_def
        concreteFactory_def AFactory_def default_abstract_creator_def
        abstract_creator_interface_def get_ret_type_def get_ctor_args_def
        example_types example_compiler)
  from 1 2 3 show ?thesis by simp
qed

section \<open>Creation policies\<close>

lemma create_registered:
  assumes "concrete_factory L AF Cs Cr = Inr f0" and "same_class f0 f"
    and "i < length (AbstractList AF)"
    and "is_invocable_memfn L (Creator AF (AbstractList AF ! i)) (AbstractList AF ! i) (map type_of vs)"
  shows "create L f (AbstractList AF ! i) vs h
        = creator_create L (creators f ! i)
            (pass_args L (args (Creator AF (AbstractList AF ! i))) vs) h"
proof -
  note n = same_class_nth [OF assms(1,2,3)]
  from assms(3) have reg: "is_base_of (Creator AF (AbstractList AF ! i)) AF"
    by (intro registered_is_base_of) simp
  show ?thesis
    using reg assms(4) n(5) n(6) by (simp add: create_def)
qed

lemma without_prototype_default:
  "without_prototype c = default_creator x k \<Longrightarrow> c = default_creator x k"
  by (cases c) auto

lemma without_prototype_value:
  "without_prototype c = value_creator x k \<Longrightarrow> c = value_creator x k"
  by (cases c) auto

lemma without_prototype_prototype:
  "without_prototype c = prototype_creator x k p \<Longrightarrow> \<exists>q. c = prototype_creator x k q"
  by (cases c) auto

lemma instantiate_default_Inr:
  "instantiate_default L x k = Inr c \<Longrightarrow> c = default_creator x k"
  by (auto simp: instantiate_default_def split: list.splits)

text \<open>
  C4. Under the default creation policy, for the interface \<open>D\<close> at position \<open>i\<close> of a
  built factory, with a creator interface that carries the tag of \<open>D\<close> itself, and
  arguments that match the parameters of \<open>D\<close>'s context, \<open>create<D>(a1, ..., an)\<close>
  allocates exactly one object, at an address that held none before, of the concrete
  class at position \<open>i\<close>, constructed from the arguments as they were passed, one per
  parameter and in their order: from \<open>(a1, ..., an)\<close> itself when their types are the
  parameter types. It returns the result type of the context made from the pointer to
  that object, so the handle is never empty. For an interface without a \<open>ret_type\<close>,
  under \<open>default_abstract_creator\<close>, that type is \<open>std::unique_ptr<D>\<close>.
\<close>

theorem default_policy_creates_fresh_instance:
  assumes "concrete_factory L AF Cs Cr = Inr f0" and "same_class f0 f"
    and "i < length (AbstractList AF)"
    and "default_policy Cr (Creator AF (AbstractList AF ! i))"
    and "abstract (Creator AF (AbstractList AF ! i)) = AbstractList AF ! i"
    and "list_all2 (is_convertible L) (map type_of vs) (args (Creator AF (AbstractList AF ! i)))"
  shows "create L f (AbstractList AF ! i) vs h
      = returned (v_handle (ret (Creator AF (AbstractList AF ! i))) (Some (length h)),
                  h @ [Some \<lparr>dynamic_type = Cs ! i,
                               constructed_from
                                 = pass_args L (args (Creator AF (AbstractList AF ! i))) vs\<rparr>])
    \<and> length (pass_args L (args (Creator AF (AbstractList AF ! i))) vs) = length vs
    \<and> (map type_of vs = args (Creator AF (AbstractList AF ! i)) \<longrightarrow>
         pass_args L (args (Creator AF (AbstractList AF ! i))) vs = vs)
    \<and> deref h (length h) = None
    \<and> (ret_type (AbstractList AF ! i) = None \<and> Creator AF = default_abstract_creator \<longrightarrow>
         ret (Creator AF (AbstractList AF ! i)) = t_unique_ptr (self (AbstractList AF ! i)))"
proof -
  let ?D = "AbstractList AF ! i"
  note n = same_class_nth [OF assms(1,2,3)]
  from assms(5,6) have inv: "is_invocable_memfn L (Creator AF ?D) ?D (map type_of vs)"
    by (simp add: is_invocable_memfn_def)
  from n(2) assms(4) have "instantiate_default L (Creator AF ?D) (Cs ! i)
      = Inr (without_prototype (creators f ! i))"
    by (simp add: instantiate_default_policy)
  from instantiate_default_Inr [OF this]
  have c: "creators f ! i = default_creator (Creator AF ?D) (Cs ! i)"
    by (rule without_prototype_default)
  have "create L f ?D vs h
      = creator_create L (creators f ! i) (pass_args L (args (Creator AF ?D)) vs) h"
    by (rule create_registered [OF assms(1,2,3) inv])
  with c have 1: "create L f ?D vs h
      = returned (v_handle (ret (Creator AF ?D)) (Some (length h)),
                  h @ [Some \<lparr>dynamic_type = Cs ! i,
                               constructed_from = pass_args L (args (Creator AF ?D)) vs\<rparr>])"
    by (simp add: new_def)
  from assms(6) have "length vs = length (args (Creator AF ?D))"
    by (auto dest: list_all2_lengthD)
  then have 2: "length (pass_args L (args (Creator AF ?D)) vs) = length vs"
    by (simp add: pass_args_def)
  have 3: "map type_of vs = args (Creator AF ?D) \<longrightarrow> pass_args L (args (Creator AF ?D)) vs = vs"
    by (simp add: pass_args_same_types)
  have 4: "deref h (length h) = None" by (simp add: deref_def)
  have 5: "ret_type ?D = None \<and> Creator AF = default_abstract_creator \<longrightarrow>
         ret (Creator AF ?D) = t_unique_ptr (self ?D)"
    by (simp add: default_abstract_creator_def abstract_creator_interface_def get_ret_type_def)
  from 1 2 3 4 5 show ?thesis by blast
qed

theorem default_policy_witness:
  "create example_cxx concreteFactory IRawProduct [v_bool True, v_int 1] []
     = returned (v_handle (t_ptr (t_class ''IRawProduct'')) (Some 0),
                 [Some \<lparr>dynamic_type = RawProduct, constructed_from = [v_bool True, v_int 1]\<rparr>])
   \<and> create example_cxx concreteFactory IUniqueProduct [] []
     = returned (v_handle (t_unique_ptr (t_class ''IUniqueProduct'')) (Some 0),
                 [Some \<lparr>dynamic_type = UniqueProduct, constructed_from = []\<rparr>])"
proof -
  have 1: "create example_cxx concreteFactory IRawProduct [v_bool True, v_int 1] []
     = returned (v_handle (t_ptr (t_class ''IRawProduct'')) (Some 0),
                 [Some \<lparr>dynamic_type = RawProduct, constructed_from = [v_bool True, v_int 1]\<rparr>])"
    using default_policy_creates_fresh_instance
      [OF example_build same_class_refl, of 2 "[v_bool True, v_int 1]" "[]"]
    by (simp add: AFactory_def CFactory_ConcreteList_def default_policy_def
        value_specialization_def prototype_specialization_def has_prototype_def
        is_invocable_memfn_def default_abstract_creator_def abstract_creator_interface_def
        get_ret_type_def get_ctor_args_def example_types example_compiler)
  have 2: "create example_cxx concreteFactory IUniqueProduct [] []
     = returned (v_handle (t_unique_ptr (t_class ''IUniqueProduct'')) (Some 0),
                 [Some \<lparr>dynamic_type = UniqueProduct, constructed_from = []\<rparr>])"
    using default_policy_creates_fresh_instance
      [OF example_build same_class_refl, of 0 "[]" "[]"]
    by (simp add: AFactory_def CFactory_ConcreteList_def default_policy_def
        value_specialization_def prototype_specialization_def has_prototype_def
        is_invocable_memfn_def default_abstract_creator_def abstract_creator_interface_def
        get_ret_type_def get_ctor_args_def example_types example_compiler)
  from 1 2 show ?thesis by simp
qed

text \<open>
  C9. In a factory built with \<open>CustomConcreteCreator\<close> that lists \<open>IIntValue\<close>
  (\<open>ret_type = int\<close>, \<open>ctor_args = utils::tl<int>\<close>), \<open>create<IIntValue>(n)\<close> returns the
  plain value \<open>n\<close> and leaves the heap as it was: no object is constructed. The creator
  is the value specialization, which returns its argument. In \<open>main\<close>, \<open>n\<close> is 12.
\<close>

theorem value_policy_returns_argument:
  assumes "concrete_factory L AF Cs CustomConcreteCreator = Inr f0" and "same_class f0 f"
    and "i < length (AbstractList AF)" and "AbstractList AF ! i = IIntValue"
    and "Creator AF = default_abstract_creator"
    and "is_convertible L t_int t_int"
  shows "create L f IIntValue [v_int n] h = returned (v_int n, h)
    \<and> creators f ! i = value_creator (default_abstract_creator IIntValue) (Cs ! i)"
proof -
  note n = same_class_nth [OF assms(1,2,3)]
  have ctx: "default_abstract_creator IIntValue
      = \<lparr>abstract = IIntValue, ret = t_int, args = [t_int]\<rparr>"
    by (simp add: default_abstract_creator_def abstract_creator_interface_def get_ret_type_def
        get_ctor_args_def IIntValue_def IValueProduct_def)
  have v: "value_specialization (default_abstract_creator IIntValue)"
    by (simp add: value_specialization_def default_abstract_creator_def
        abstract_creator_interface_def get_ctor_args_def IIntValue_def IValueProduct_def)
  have p: "\<not> prototype_specialization (default_abstract_creator IIntValue)"
    by (simp add: prototype_specialization_def has_prototype_def default_abstract_creator_def
        abstract_creator_interface_def IIntValue_def IValueProduct_def)
  from n(2) assms(4,5) v p
  have "without_prototype (creators f ! i)
      = value_creator (default_abstract_creator IIntValue) (Cs ! i)"
    by simp
  then have c: "creators f ! i = value_creator (default_abstract_creator IIntValue) (Cs ! i)"
    by (rule without_prototype_value)
  have inv: "is_invocable_memfn L (Creator AF (AbstractList AF ! i)) (AbstractList AF ! i) (map type_of [v_int n])"
    using assms(4,5,6) by (simp add: ctx is_invocable_memfn_def)
  from create_registered [OF assms(1,2,3) inv, of h] assms(4,5) c
  have "create L f IIntValue [v_int n] h = returned (v_int n, h)"
    by (simp add: ctx pass_args_def as_type_def)
  with c show ?thesis by simp
qed

theorem value_policy_witness:
  "create example_cxx concreteFactory IIntValue [v_int 12] [] = returned (v_int 12, [])"
  using value_policy_returns_argument
    [OF example_build same_class_refl, of 3 12 "[]"]
  by (simp add: AFactory_def example_compiler)

section \<open>The chain builder and its diagnostics\<close>

text \<open>
  C5. Given contexts and concrete classes in two lists of the same length \<open>n\<close>, with
  \<open>n\<close> at least 1, \<open>generate_creators\<close> succeeds and names the nested type
  \<open>Creator<Context1, C1, Creator<Context2, C2, ... Creator<Contextn, Cn, Root>>>\<close>: the
  first pair is the outermost creator, its base is the type generated for the
  remaining pairs, and the creator of a single remaining pair has the root as its
  base. The pairs of the chain are the two lists zipped, so the creator at position
  \<open>i\<close> is the one of context \<open>i\<close> with concrete class \<open>i\<close>. (With two empty lists there is
  no chain: only the undefined primary template matches.)
\<close>

theorem generate_creators_recursive_zip:
  assumes "length Contexts = length Cs" and "Contexts \<noteq> []"
  shows "generate_creators Cr R Contexts Cs = Inr (chain_of Cr R (zip Contexts Cs))
    \<and> chain_of Cr R (zip Contexts Cs)
        = Derived Cr (hd Contexts) (hd Cs) (chain_of Cr R (zip (tl Contexts) (tl Cs)))
    \<and> (tl Contexts = [] \<longrightarrow>
          chain_of Cr R (zip Contexts Cs) = Derived Cr (hd Contexts) (hd Cs) (Root R))
    \<and> (tl Contexts \<noteq> [] \<longrightarrow>
          generate_creators Cr R (tl Contexts) (tl Cs)
            = Inr (chain_of Cr R (zip (tl Contexts) (tl Cs))))
    \<and> links (chain_of Cr R (zip Contexts Cs)) = zip Contexts Cs
    \<and> chain_root (chain_of Cr R (zip Contexts Cs)) = R
    \<and> (\<forall>i < length Contexts. links (chain_of Cr R (zip Contexts Cs)) ! i = (Contexts ! i, Cs ! i))"
proof -
  from assms obtain Context Contexts' C0 Cs' where
    eq: "Contexts = Context # Contexts'" "Cs = C0 # Cs'" and len: "length Contexts' = length Cs'"
    by (cases Contexts; cases Cs) auto
  have 1: "generate_creators Cr R Contexts Cs = Inr (chain_of Cr R (zip Contexts Cs))"
    by (rule generate_creators_zip [OF assms])
  have 2: "chain_of Cr R (zip Contexts Cs)
        = Derived Cr (hd Contexts) (hd Cs) (chain_of Cr R (zip (tl Contexts) (tl Cs)))"
    by (simp add: eq chain_of_Cons)
  have 3: "tl Contexts = [] \<longrightarrow>
          chain_of Cr R (zip Contexts Cs) = Derived Cr (hd Contexts) (hd Cs) (Root R)"
    by (simp add: eq chain_of_Cons chain_of_Nil)
  have 4: "tl Contexts \<noteq> [] \<longrightarrow>
          generate_creators Cr R (tl Contexts) (tl Cs)
            = Inr (chain_of Cr R (zip (tl Contexts) (tl Cs)))"
    using len by (simp add: eq generate_creators_zip del: generate_creators.simps)
  have 5: "links (chain_of Cr R (zip Contexts Cs)) = zip Contexts Cs"
    by (rule links_chain_of)
  have 6: "chain_root (chain_of Cr R (zip Contexts Cs)) = R"
    by (rule chain_root_chain_of)
  have 7: "\<forall>i < length Contexts. links (chain_of Cr R (zip Contexts Cs)) ! i = (Contexts ! i, Cs ! i)"
    using assms(1) by (simp add: links_chain_of)
  from 1 2 3 4 5 6 7 show ?thesis by blast
qed

theorem generate_creators_witness:
  "generate_creators CustomConcreteCreator AFactory (context_list AFactory) CFactory_ConcreteList
     = Inr (chain_of CustomConcreteCreator AFactory (zip (context_list AFactory) CFactory_ConcreteList))
   \<and> links (chain_of CustomConcreteCreator AFactory (zip (context_list AFactory) CFactory_ConcreteList)) ! 2
     = (default_abstract_creator IRawProduct, RawProduct)
   \<and> length (context_list AFactory) = 8"
  using generate_creators_recursive_zip
    [of "context_list AFactory" CFactory_ConcreteList CustomConcreteCreator AFactory]
  by (simp add: context_list_def AFactory_def CFactory_ConcreteList_def chain_of_def)

theorem generate_creators_empty_counterexample:
  "length (context_list \<lparr>AbstractList = [], Creator = default_abstract_creator\<rparr>) = length ([] :: ty list)
   \<and> generate_creators default_concrete_creator
        \<lparr>AbstractList = [], Creator = default_abstract_creator\<rparr>
        (context_list \<lparr>AbstractList = [], Creator = default_abstract_creator\<rparr>) []
      = Inl [incomplete_type]
   \<and> concrete_factory example_cxx \<lparr>AbstractList = [], Creator = default_abstract_creator\<rparr> []
        default_concrete_creator
      = Inl [incomplete_type]"
  by (simp add: context_list_def concrete_factory_def abstract_factory_bases_def)

lemma abstract_factory_bases_cases:
  "abstract_factory_bases AF = [] \<or> abstract_factory_bases AF = [duplicate_base_class]"
  by (simp add: abstract_factory_bases_def)

text \<open>
  C6. When the list of product interfaces and the list of concrete classes differ in
  length, building the concrete factory fails, so that there is no factory object to
  call \<open>create\<close> on. When both lists are non-empty the static assertion of
  \<open>generate_creators\<close> is among the diagnostics, and its message is
  \<open>Abstract and concrete lists are of different length\<close>.
\<close>

theorem length_mismatch_fails_build:
  assumes "length (AbstractList AF) \<noteq> length ConcreteList"
  shows "concrete_factory L AF ConcreteList Cr
      = Inl (diagnostics (concrete_factory L AF ConcreteList Cr))
    \<and> diagnostics (concrete_factory L AF ConcreteList Cr) \<noteq> []
    \<and> (AbstractList AF \<noteq> [] \<and> ConcreteList \<noteq> [] \<longrightarrow>
          static_assert ''Abstract and concrete lists are of different length''
            \<in> set (diagnostics (concrete_factory L AF ConcreteList Cr)))"
proof (cases "AbstractList AF = [] \<or> ConcreteList = []")
  case True
  then have "context_list AF = [] \<or> ConcreteList = []" by (auto simp: context_list_def)
  from generate_creators_empty [OF this, of Cr AF]
  have "concrete_factory L AF ConcreteList Cr
      = Inl (abstract_factory_bases AF @ [incomplete_type])"
    by (simp add: concrete_factory_def)
  with True abstract_factory_bases_cases [of AF] show ?thesis by auto
next
  case False
  then have ne: "context_list AF \<noteq> []" "ConcreteList \<noteq> []" by (auto simp: context_list_def)
  from assms have "length (context_list AF) \<noteq> length ConcreteList"
    by (simp add: length_context_list)
  from generate_creators_mismatch [OF this ne, of Cr AF] obtain ds where
    "generate_creators Cr AF (context_list AF) ConcreteList
       = Inl (static_assert ''Abstract and concrete lists are of different length'' # ds)"
    by blast
  then have "concrete_factory L AF ConcreteList Cr
      = Inl (abstract_factory_bases AF
             @ static_assert ''Abstract and concrete lists are of different length'' # ds)"
    by (simp add: concrete_factory_def)
  with False show ?thesis by simp
qed

theorem length_mismatch_witness:
  "concrete_factory example_cxx AFactory [UniqueProduct, SharedProduct] CustomConcreteCreator
     = Inl (diagnostics
         (concrete_factory example_cxx AFactory [UniqueProduct, SharedProduct] CustomConcreteCreator))
   \<and> static_assert ''Abstract and concrete lists are of different length''
       \<in> set (diagnostics
         (concrete_factory example_cxx AFactory [UniqueProduct, SharedProduct] CustomConcreteCreator))
   \<and> concrete_factory example_cxx AFactory [] CustomConcreteCreator
     = Inl (diagnostics (concrete_factory example_cxx AFactory [] CustomConcreteCreator))"
  using length_mismatch_fails_build
          [of AFactory "[UniqueProduct, SharedProduct]" example_cxx CustomConcreteCreator]
        length_mismatch_fails_build [of AFactory "[]" example_cxx CustomConcreteCreator]
  by (simp add: AFactory_def)

theorem length_mismatch_message_counterexample:
  "length (AbstractList \<lparr>AbstractList = [IUniqueProduct, ISharedProduct],
                          Creator = default_abstract_creator\<rparr>)
     \<noteq> length [UniqueProduct]
   \<and> diagnostics
       (concrete_factory example_cxx
          \<lparr>AbstractList = [IUniqueProduct, ISharedProduct], Creator = default_abstract_creator\<rparr>
          [UniqueProduct] default_concrete_creator)
     = [static_assert ''Abstract and concrete lists are of different length'', incomplete_type]
   \<and> static_assert ''descriptor and implementation lists are of different length''
       \<notin> set (diagnostics
         (concrete_factory example_cxx
            \<lparr>AbstractList = [IUniqueProduct, ISharedProduct], Creator = default_abstract_creator\<rparr>
            [UniqueProduct] default_concrete_creator))
   \<and> diagnostics
       (concrete_factory example_cxx
          \<lparr>AbstractList = [IUniqueProduct], Creator = default_abstract_creator\<rparr>
          [] default_concrete_creator)
     = [incomplete_type]"
  by (simp add: build_defs example_types)

lemma concrete_factory_diagnostics:
  assumes "length (AbstractList AF) = length Cs" and "i < length Cs"
    and "instantiate L Cr (Creator AF (AbstractList AF ! i)) (Cs ! i) = Inl es"
  shows "concrete_factory L AF Cs Cr = Inl (diagnostics (concrete_factory L AF Cs Cr))"
    and "set es \<subseteq> set (diagnostics (concrete_factory L AF Cs Cr))"
proof -
  let ?ps = "zip (context_list AF) Cs"
  from assms(1,2) have ne: "context_list AF \<noteq> []" and len: "length (context_list AF) = length Cs"
    by (auto simp: context_list_def)
  from generate_creators_zip [OF len ne, of Cr AF]
  have g: "generate_creators Cr AF (context_list AF) Cs = Inr (chain_of Cr AF ?ps)" .
  from assms(1,2) have "?ps ! i = (Creator AF (AbstractList AF ! i), Cs ! i)"
    by (simp add: context_list_def)
  moreover from assms(1,2) have "i < length ?ps" by (simp add: context_list_def)
  ultimately have mem: "(Creator AF (AbstractList AF ! i), Cs ! i) \<in> set ?ps"
    by (metis nth_mem)
  from construct_diagnostics [OF mem assms(3), of AF]
  have sub: "set es \<subseteq> set (fst (construct L (chain_of Cr AF ?ps)))" .
  from instantiate_Inl_nonempty [OF assms(3)] sub
  have nonempty: "fst (construct L (chain_of Cr AF ?ps)) \<noteq> []" by auto
  obtain ds cs where c: "construct L (chain_of Cr AF ?ps) = (ds, cs)"
    by (cases "construct L (chain_of Cr AF ?ps)")
  from g c nonempty have r: "concrete_factory L AF Cs Cr = Inl (abstract_factory_bases AF @ ds)"
    by (simp add: concrete_factory_def)
  then show "concrete_factory L AF Cs Cr = Inl (diagnostics (concrete_factory L AF Cs Cr))"
    by simp
  from r sub c show "set es \<subseteq> set (diagnostics (concrete_factory L AF Cs Cr))"
    by auto
qed

text \<open>
  C7. Under the default creation policy, instantiating the creator of a context and a
  concrete class fails with the static assertion
  \<open>Product is not constructible from a given set of arguments\<close> when the class is not
  constructible from the argument types of the context, and with
  \<open>ret_type is not constructible from Concrete*\<close> when the result type of the context is
  not constructible from a pointer to the class. When the list of product interfaces
  and the list of concrete classes have the same length, so that the chain is
  generated and the creator of every pair is instantiated, the build of the factory
  fails and these messages are among its diagnostics.
\<close>

theorem default_creator_static_assertions:
  assumes "default_policy Cr Context"
  shows "(\<not> is_constructible L Concrete (args Context) \<longrightarrow>
            instantiate L Cr Context Concrete
              = Inl (diagnostics (instantiate L Cr Context Concrete))
            \<and> static_assert ''Product is not constructible from a given set of arguments''
                \<in> set (diagnostics (instantiate L Cr Context Concrete)))
    \<and> (\<not> is_constructible L (ret Context) [t_ptr Concrete] \<longrightarrow>
            instantiate L Cr Context Concrete
              = Inl (diagnostics (instantiate L Cr Context Concrete))
            \<and> static_assert ''ret_type is not constructible from Concrete*''
                \<in> set (diagnostics (instantiate L Cr Context Concrete)))
    \<and> (length (AbstractList AF) = length Cs \<and> i < length Cs
          \<and> Creator AF (AbstractList AF ! i) = Context \<and> Cs ! i = Concrete \<longrightarrow>
          (\<not> is_constructible L Concrete (args Context) \<longrightarrow>
              concrete_factory L AF Cs Cr = Inl (diagnostics (concrete_factory L AF Cs Cr))
              \<and> static_assert ''Product is not constructible from a given set of arguments''
                  \<in> set (diagnostics (concrete_factory L AF Cs Cr)))
          \<and> (\<not> is_constructible L (ret Context) [t_ptr Concrete] \<longrightarrow>
              concrete_factory L AF Cs Cr = Inl (diagnostics (concrete_factory L AF Cs Cr))
              \<and> static_assert ''ret_type is not constructible from Concrete*''
                  \<in> set (diagnostics (concrete_factory L AF Cs Cr))))"
proof -
  let ?as = "default_concrete_creator_asserts L Context Concrete"
  have inst: "instantiate L Cr Context Concrete = instantiate_default L Context Concrete"
    by (rule instantiate_default_policy [OF assms])
  have fails: "instantiate L Cr Context Concrete = Inl ?as" if "d \<in> set ?as" for d
  proof -
    from that have "?as \<noteq> []" by auto
    then show ?thesis by (simp add: inst instantiate_default_def split: list.splits)
  qed
  have 1: "\<not> is_constructible L Concrete (args Context) \<longrightarrow>
      static_assert ''Product is not constructible from a given set of arguments'' \<in> set ?as"
    by (simp add: default_concrete_creator_asserts_def)
  have 2: "\<not> is_constructible L (ret Context) [t_ptr Concrete] \<longrightarrow>
      static_assert ''ret_type is not constructible from Concrete*'' \<in> set ?as"
    by (simp add: default_concrete_creator_asserts_def)
  have creator: "instantiate L Cr Context Concrete
              = Inl (diagnostics (instantiate L Cr Context Concrete))
            \<and> d \<in> set (diagnostics (instantiate L Cr Context Concrete))"
    if "d \<in> set ?as" for d
    using fails [OF that] that by simp
  have build: "concrete_factory L AF Cs Cr = Inl (diagnostics (concrete_factory L AF Cs Cr))
      \<and> d \<in> set (diagnostics (concrete_factory L AF Cs Cr))"
    if "d \<in> set ?as" and "length (AbstractList AF) = length Cs" and "i < length Cs"
      and "Creator AF (AbstractList AF ! i) = Context" and "Cs ! i = Concrete" for d
  proof -
    from fails [OF that(1)] that(4,5)
    have "instantiate L Cr (Creator AF (AbstractList AF ! i)) (Cs ! i) = Inl ?as" by simp
    from concrete_factory_diagnostics [OF that(2,3) this] that(1) show ?thesis by auto
  qed
  from 1 2 creator build show ?thesis by blast
qed

theorem default_creator_assertions_witness:
  "instantiate example_cxx default_concrete_creator (default_abstract_creator IRawProduct)
      UniqueProduct
     = Inl [static_assert ''Product is not constructible from a given set of arguments'',
            static_assert ''ret_type is not constructible from Concrete*'']
   \<and> concrete_factory example_cxx
      \<lparr>AbstractList = [IRawProduct], Creator = default_abstract_creator\<rparr>
      [UniqueProduct] default_concrete_creator
     = Inl [static_assert ''Product is not constructible from a given set of arguments'',
            static_assert ''ret_type is not constructible from Concrete*'']"
  using default_creator_static_assertions
    [of default_concrete_creator "default_abstract_creator IRawProduct" example_cxx UniqueProduct
        "\<lparr>AbstractList = [IRawProduct], Creator = default_abstract_creator\<rparr>"
        "[UniqueProduct]" 0]
  by (simp add: build_defs default_policy_def example_types example_compiler)

theorem default_creator_messages_counterexample:
  "\<not> is_constructible example_cxx UniqueProduct
        (args (default_abstract_creator IRawProduct))
   \<and> \<not> is_constructible example_cxx (ret (default_abstract_creator IRawProduct))
        [t_ptr UniqueProduct]
   \<and> static_assert ''implementation is not constructible from the given arguments''
       \<notin> set (diagnostics
         (concrete_factory example_cxx
            \<lparr>AbstractList = [IRawProduct], Creator = default_abstract_creator\<rparr>
            [UniqueProduct] default_concrete_creator))
   \<and> static_assert ''result type is not constructible from implementation''
       \<notin> set (diagnostics
         (concrete_factory example_cxx
            \<lparr>AbstractList = [IRawProduct], Creator = default_abstract_creator\<rparr>
            [UniqueProduct] default_concrete_creator))
   \<and> diagnostics
         (concrete_factory example_cxx
            \<lparr>AbstractList = [IRawProduct], Creator = default_abstract_creator\<rparr>
            [UniqueProduct] default_concrete_creator)
     = [static_assert ''Product is not constructible from a given set of arguments'',
        static_assert ''ret_type is not constructible from Concrete*'']
   \<and> diagnostics
         (concrete_factory example_cxx
            \<lparr>AbstractList = [IRawProduct, IUniqueProduct], Creator = default_abstract_creator\<rparr>
            [UniqueProduct] default_concrete_creator)
     = [static_assert ''Abstract and concrete lists are of different length'', incomplete_type]"
  by (simp add: build_defs example_types example_compiler)

section \<open>The prototype policy\<close>

lemma distinct_AbstractList:
  "concrete_factory L AF Cs Cr = Inr f0 \<Longrightarrow> distinct (AbstractList AF)"
  using concrete_factory_Inr(2) [of L AF Cs Cr f0]
  by (simp add: context_list_def distinct_map)

lemma creators_abstract:
  assumes "concrete_factory L AF Cs Cr = Inr f0" and "same_class f0 f"
    and "\<And>X. abstract (Creator AF X) = X"
  shows "map (\<lambda>c. abstract (creator_context c)) (creators f) = AbstractList AF"
proof (rule nth_equalityI)
  show "length (map (\<lambda>c. abstract (creator_context c)) (creators f)) = length (AbstractList AF)"
    using concrete_factory_Inr(4) [OF assms(1)] same_class_nth(1) [OF assms(1,2), of 0]
    by simp
next
  fix j assume "j < length (map (\<lambda>c. abstract (creator_context c)) (creators f))"
  then have j: "j < length (creators f)" by simp
  have "length (creators f) = length (AbstractList AF)"
    using concrete_factory_Inr(4) [OF assms(1)] same_class_nth(1) [OF assms(1,2), of 0]
    by simp
  with j have j': "j < length (AbstractList AF)" by simp
  from same_class_nth(3) [OF assms(1,2) j'] assms(3) j
  show "map (\<lambda>c. abstract (creator_context c)) (creators f) ! j = AbstractList AF ! j"
    by simp
qed

lemma SetPrototype_in_nth:
  "distinct (map (\<lambda>c. abstract (creator_context c)) cs) \<Longrightarrow> i < length cs \<Longrightarrow>
   cs ! i = prototype_creator x k q \<Longrightarrow> abstract x = D \<Longrightarrow>
   (\<And>q'. q = Some q' \<Longrightarrow> deref h q' \<noteq> None) \<Longrightarrow>
   SetPrototype_in cs D p h
     = returned (cs[i := prototype_creator x k p],
                 (case q of None \<Rightarrow> h | Some q' \<Rightarrow> h[q' := None]))"
proof (induction cs arbitrary: i)
  case Nil
  then show ?case by simp
next
  case (Cons c cs)
  show ?case
  proof (cases i)
    case 0
    with Cons.prems show ?thesis by (auto simp: delete_def split: option.splits)
  next
    case (Suc j)
    with Cons.prems have j: "j < length cs" "cs ! j = prototype_creator x k q" by auto
    then have "prototype_creator x k q \<in> set cs" by (metis nth_mem)
    then have "D \<in> (\<lambda>c. abstract (creator_context c)) ` set cs"
      using Cons.prems(4) by force
    with Cons.prems(1) have ne: "abstract (creator_context c) \<noteq> D" by auto
    from Cons.prems(1) have "distinct (map (\<lambda>c. abstract (creator_context c)) cs)" by simp
    from Cons.IH [OF this j Cons.prems(4,5)] ne Suc show ?thesis by simp
  qed
qed

lemma prototype_creator_at:
  assumes "concrete_factory L AF Cs CustomConcreteCreator = Inr f0" and "same_class f0 f"
    and "\<And>X. abstract (Creator AF X) = X"
    and "i < length (AbstractList AF)" and "has_prototype (AbstractList AF ! i)"
  shows "\<exists>q. creators f ! i = prototype_creator (Creator AF (AbstractList AF ! i)) (Cs ! i) q"
    and "creators f0 ! i = prototype_creator (Creator AF (AbstractList AF ! i)) (Cs ! i) None"
proof -
  let ?x = "Creator AF (AbstractList AF ! i)"
  from assms(3,5) have p: "prototype_specialization ?x"
    by (simp add: prototype_specialization_def)
  have s0: "same_class f0 f0" by (simp add: same_class_def)
  from p specializations_exclusive [of ?x] have v: "\<not> value_specialization ?x" by blast
  from same_class_nth(2) [OF assms(1,2,4)] p v
  have "without_prototype (creators f ! i) = prototype_creator ?x (Cs ! i) None"
    by simp
  then show "\<exists>q. creators f ! i = prototype_creator ?x (Cs ! i) q"
    by (rule without_prototype_prototype)
  from same_class_nth(2) [OF assms(1) s0 assms(4)] p v
  have w: "without_prototype (creators f0 ! i) = prototype_creator ?x (Cs ! i) None"
    by simp
  from concrete_factory_Inr(5) [OF assms(1)] have
    "list_all2 (\<lambda>(x, c) cr. instantiate L CustomConcreteCreator x c = Inr cr)
       (zip (context_list AF) Cs) (creators f0)" .
  moreover from assms(4) concrete_factory_Inr(3) [OF assms(1)]
  have "i < length (zip (context_list AF) Cs)" by (simp add: length_context_list)
  ultimately have "(\<lambda>(x, c) cr. instantiate L CustomConcreteCreator x c = Inr cr)
       (zip (context_list AF) Cs ! i) (creators f0 ! i)"
    by (rule list_all2_nthD)
  then obtain x c where "instantiate L CustomConcreteCreator x c = Inr (creators f0 ! i)"
    by (cases "zip (context_list AF) Cs ! i") auto
  from instantiate_Inr [OF this] have "without_prototype (creators f0 ! i) = creators f0 ! i"
    by simp
  with w show "creators f0 ! i = prototype_creator ?x (Cs ! i) None" by simp
qed

lemma same_class_update:
  assumes "same_class f0 f" and "i < length (creators f)"
    and "creators f ! i = prototype_creator x k q"
  shows "same_class f0 (f\<lparr>creators := (creators f)[i := prototype_creator x k p]\<rparr>)"
proof -
  have "map without_prototype ((creators f)[i := prototype_creator x k p])
      = (map without_prototype (creators f))[i := prototype_creator x k None]"
    by (simp add: map_update)
  also have "\<dots> = map without_prototype (creators f)"
  proof -
    from assms(2,3) have "map without_prototype (creators f) ! i = prototype_creator x k None"
      by simp
    then show ?thesis by (metis list_update_id)
  qed
  finally show ?thesis using assms(1) by (simp add: same_class_def)
qed

lemma held_prototype_nth:
  assumes "concrete_factory L AF Cs Cr = Inr f0" and "same_class f0 f"
    and "i < length (AbstractList AF)"
  shows "held_prototype f (AbstractList AF ! i)
      = (case creators f ! i of prototype_creator x k p \<Rightarrow> Some p | _ \<Rightarrow> None)"
  using same_class_nth(5,6) [OF assms]
  by (simp add: held_prototype_def split: creator.splits)

lemma SetPrototype_on_registered:
  assumes build: "concrete_factory L AF Cs CustomConcreteCreator = Inr f0"
    and same: "same_class f0 f"
    and tagged: "\<And>X. abstract (Creator AF X) = X"
    and i: "i < length (AbstractList AF)" and proto: "has_prototype (AbstractList AF ! i)"
    and live: "exemplar_live f (AbstractList AF ! i) h"
  shows "\<exists>f1 h1. SetPrototype_on f (AbstractList AF ! i) p h = returned (f1, h1)
      \<and> same_class f0 f1
      \<and> held_prototype f1 (AbstractList AF ! i) = Some p
      \<and> (\<forall>j < length (AbstractList AF). j \<noteq> i \<longrightarrow>
            held_prototype f1 (AbstractList AF ! j) = held_prototype f (AbstractList AF ! j))
      \<and> length h1 = length h
      \<and> (\<forall>e. held_prototype f (AbstractList AF ! i) \<noteq> Some (Some e) \<longrightarrow> deref h1 e = deref h e)"
proof -
  let ?D = "AbstractList AF ! i"
  let ?x = "Creator AF ?D"
  from prototype_creator_at(1) [OF build same tagged i proto] obtain q where
    q: "creators f ! i = prototype_creator ?x (Cs ! i) q" by blast
  have len: "length (creators f) = length (AbstractList AF)"
    by (rule same_class_nth(1) [OF build same i])
  have d: "distinct (map (\<lambda>c. abstract (creator_context c)) (creators f))"
    using creators_abstract [OF build same tagged] distinct_AbstractList [OF build] by simp
  let ?f1 = "f\<lparr>creators := (creators f)[i := prototype_creator ?x (Cs ! i) p]\<rparr>"
  let ?h1 = "case q of None \<Rightarrow> h | Some q' \<Rightarrow> h[q' := None]"
  from i len have i': "i < length (creators f)" by simp
  have hq: "held_prototype f ?D = Some q"
    using held_prototype_nth [OF build same i] q by simp
  have ql: "deref h q' \<noteq> None" if "q = Some q'" for q'
    using live hq that by (simp add: exemplar_live_def)
  from SetPrototype_in_nth [OF d i' q tagged ql, of p]
  have set: "SetPrototype_on f ?D p h = returned (?f1, ?h1)"
    by (simp add: SetPrototype_on_def)
  have same1: "same_class f0 ?f1" by (rule same_class_update [OF same i' q])
  have held: "held_prototype ?f1 ?D = Some p"
    using held_prototype_nth [OF build same1 i] i' by simp
  have others: "\<forall>j < length (AbstractList AF). j \<noteq> i \<longrightarrow>
            held_prototype ?f1 (AbstractList AF ! j) = held_prototype f (AbstractList AF ! j)"
  proof (intro allI impI)
    fix j assume j: "j < length (AbstractList AF)" "j \<noteq> i"
    from held_prototype_nth [OF build same1 j(1)] held_prototype_nth [OF build same j(1)] j(2)
    show "held_prototype ?f1 (AbstractList AF ! j) = held_prototype f (AbstractList AF ! j)"
      by simp
  qed
  have hl: "length ?h1 = length h" by (simp split: option.splits)
  have hd: "\<forall>e. held_prototype f ?D \<noteq> Some (Some e) \<longrightarrow> deref ?h1 e = deref h e"
    using hq by (auto simp: deref_def split: option.splits)
  from set same1 held others hl hd show ?thesis by blast
qed

lemma create_prototype:
  assumes build: "concrete_factory L AF Cs CustomConcreteCreator = Inr f0"
    and same: "same_class f0 f"
    and i: "i < length (AbstractList AF)"
    and inv: "is_invocable_memfn L (Creator AF (AbstractList AF ! i)) (AbstractList AF ! i) (map type_of vs)"
    and held: "held_prototype f (AbstractList AF ! i) = Some p"
  shows "p = None \<Longrightarrow> create L f (AbstractList AF ! i) vs h = undefined_behaviour"
    and "p = Some e \<Longrightarrow> deref h e = Some (PrototypeProduct_object N) \<Longrightarrow>
         create L f (AbstractList AF ! i) vs h
           = clone_result L (Creator AF (AbstractList AF ! i)) N h"
proof -
  from held held_prototype_nth [OF build same i] obtain x k where
    c: "creators f ! i = prototype_creator x k p"
    by (auto split: creator.splits)
  from same_class_nth(3) [OF build same i] c
  have x: "x = Creator AF (AbstractList AF ! i)" by simp
  note cr = create_registered [OF build same i inv, of h]
  show "p = None \<Longrightarrow> create L f (AbstractList AF ! i) vs h = undefined_behaviour"
    using cr c by simp
  show "p = Some e \<Longrightarrow> deref h e = Some (PrototypeProduct_object N) \<Longrightarrow>
         create L f (AbstractList AF ! i) vs h
           = clone_result L (Creator AF (AbstractList AF ! i)) N h"
    using cr c x
    by (simp add: clone_result_def PrototypeProduct_object_def PrototypeProduct_def new_def)
qed







lemma example_tagged: "abstract (Creator AFactory X) = X"
  by (simp add: AFactory_def default_abstract_creator_def abstract_creator_interface_def)

lemma example_held_prototype:
  "held_prototype concreteFactory (IPrototypeProduct 0) = Some None"
  "held_prototype concreteFactory (IPrototypeProduct 1) = Some None"
  by (simp_all add: held_prototype_def final_overrider_def concreteFactory_def AFactory_def
      default_abstract_creator_def abstract_creator_interface_def get_ret_type_def
      get_ctor_args_def example_types)



text \<open>
  C10. The prototype creator of a newly built factory holds an empty exemplar
  (\<open>prototype{}\<close>), and \<open>create\<close> does not test it: for an interface \<open>D\<close> with a
  \<open>prototype_t\<close>, a well-formed \<open>create<D>(args...)\<close> on the new factory, or on any factory
  whose creator of \<open>D\<close> holds no exemplar, calls \<open>Clone\<close> through the empty handle, which
  is undefined behaviour and neither a diagnostic nor a returned error. After
  \<open>SetPrototype\<close> with an exemplar the creator holds that exemplar, and \<open>create\<close>
  dereferences a handle that is not empty: with a live \<open>PrototypeProduct<N>\<close> it returns
  the clone.
\<close>

theorem unset_prototype_is_dereferenced:
  assumes "concrete_factory L AF Cs CustomConcreteCreator = Inr f0" and "same_class f0 f"
    and "\<And>X. abstract (Creator AF X) = X"
    and "i < length (AbstractList AF)" and "has_prototype (AbstractList AF ! i)"
    and "is_invocable_memfn L (Creator AF (AbstractList AF ! i)) (AbstractList AF ! i) (map type_of vs)"
    and "exemplar_live f (AbstractList AF ! i) h"
  shows "held_prototype f0 (AbstractList AF ! i) = Some None
    \<and> create L f0 (AbstractList AF ! i) vs h = undefined_behaviour
    \<and> (held_prototype f (AbstractList AF ! i) = Some None \<longrightarrow>
          create L f (AbstractList AF ! i) vs h = undefined_behaviour)
    \<and> (\<exists>f1 h1. SetPrototype_on f (AbstractList AF ! i) (Some e) h = returned (f1, h1)
          \<and> held_prototype f1 (AbstractList AF ! i) = Some (Some e)
          \<and> (\<forall>N. deref h1 e = Some (PrototypeProduct_object N) \<longrightarrow>
                create L f1 (AbstractList AF ! i) vs h1
                  = clone_result L (Creator AF (AbstractList AF ! i)) N h1))"
proof -
  have s0: "same_class f0 f0" by (simp add: same_class_def)
  from prototype_creator_at(2) [OF assms(1,2,3,4,5)] held_prototype_nth [OF assms(1) s0 assms(4)]
  have 1: "held_prototype f0 (AbstractList AF ! i) = Some None" by simp
  from create_prototype(1) [OF assms(1) s0 assms(4,6) 1 refl]
  have 2: "create L f0 (AbstractList AF ! i) vs h = undefined_behaviour" .
  have 3: "held_prototype f (AbstractList AF ! i) = Some None \<longrightarrow>
          create L f (AbstractList AF ! i) vs h = undefined_behaviour"
    using create_prototype(1) [OF assms(1,2,4,6) _ refl] by blast
  from SetPrototype_on_registered [OF assms(1,2,3,4,5,7), of "Some e"] obtain f1 h1 where
    s1: "SetPrototype_on f (AbstractList AF ! i) (Some e) h = returned (f1, h1)"
    and same1: "same_class f0 f1"
    and held1: "held_prototype f1 (AbstractList AF ! i) = Some (Some e)"
    by blast
  have "\<forall>N. deref h1 e = Some (PrototypeProduct_object N) \<longrightarrow>
                create L f1 (AbstractList AF ! i) vs h1
                  = clone_result L (Creator AF (AbstractList AF ! i)) N h1"
    using create_prototype(2) [OF assms(1) same1 assms(4,6) held1 refl] by blast
  with s1 held1 have 4: "\<exists>f1 h1. SetPrototype_on f (AbstractList AF ! i) (Some e) h = returned (f1, h1)
          \<and> held_prototype f1 (AbstractList AF ! i) = Some (Some e)
          \<and> (\<forall>N. deref h1 e = Some (PrototypeProduct_object N) \<longrightarrow>
                create L f1 (AbstractList AF ! i) vs h1
                  = clone_result L (Creator AF (AbstractList AF ! i)) N h1)"
    by blast
  from 1 2 3 4 show ?thesis by blast
qed

theorem unset_prototype_witness:
  "held_prototype concreteFactory (IPrototypeProduct 0) = Some None
   \<and> create example_cxx concreteFactory (IPrototypeProduct 0) [] [] = undefined_behaviour"
proof -
  have i: "(5::nat) < length (AbstractList AFactory)" by (simp add: AFactory_def)
  have Di: "AbstractList AFactory ! 5 = IPrototypeProduct 0" by (simp add: AFactory_def)
  have pi: "has_prototype (AbstractList AFactory ! 5)"
    by (simp add: Di has_prototype_def IPrototypeProduct_def)
  have inv: "is_invocable_memfn example_cxx (Creator AFactory (AbstractList AFactory ! 5)) (AbstractList AFactory ! 5) (map type_of [])"
    by (simp add: Di is_invocable_memfn_def AFactory_def default_abstract_creator_def
        abstract_creator_interface_def get_ctor_args_def IPrototypeProduct_def)
  have lv: "exemplar_live concreteFactory (AbstractList AFactory ! 5) []"
    by (simp add: Di exemplar_live_def example_held_prototype)
  from unset_prototype_is_dereferenced
    [OF example_build same_class_refl example_tagged i pi inv lv, of 0]
  show ?thesis unfolding Di by blast
qed

end
